theory Spec2Isabelle
  imports Main
begin

section \<open>Values and the records of the store\<close>

text \<open>
  A value of the language as the pages handle it: the \<open>content\<close> column and the React
  state \<open>content\<close> are typed \<open>any\<close>. \<open>JStr\<close> is a JavaScript string, \<open>JObj\<close> an object
  with its keys in order. Numbers are integers: no page reads one.
\<close>

datatype json =
    JNull
  | JBool bool
  | JNum int
  | JStr string
  | JArr "json list"
  | JObj "(string \<times> json) list"

text \<open>\<open>typeof v === "string"\<close>.\<close>

fun is_string :: "json \<Rightarrow> bool" where
  "is_string (JStr s) = True"
| "is_string v = False"

text \<open>An object or an array, which the language holds by reference.\<close>

fun is_object :: "json \<Rightarrow> bool" where
  "is_object (JArr vs) = True"
| "is_object (JObj ms) = True"
| "is_object v = False"

text \<open>
  \<open>Object.is\<close>, by which React compares a state with its new value and an effect's
  dependencies with the last render's. A value is held with the identity of the object
  it is: two objects are the same when they are one object, whatever they hold, and
  two primitives when they are equal.
\<close>

definition Object_is :: "nat \<times> json \<Rightarrow> nat \<times> json \<Rightarrow> bool" where
  "Object_is a b =
     (if is_object (snd a) \<and> is_object (snd b) then fst a = fst b else snd a = snd b)"

text \<open>
  The truth value of \<open>v\<close> in \<open>v && ...\<close>: \<open>null\<close>, \<open>false\<close>, \<open>0\<close> and the empty string
  are falsy, every object and array is truthy.
\<close>

fun truthy :: "json \<Rightarrow> bool" where
  "truthy JNull = False"
| "truthy (JBool b) = b"
| "truthy (JNum n) = (n \<noteq> 0)"
| "truthy (JStr s) = (s \<noteq> [])"
| "truthy (JArr vs) = True"
| "truthy (JObj ms) = True"

text \<open>\<open>status: "draft" | "published"\<close>.\<close>

datatype status = Draft | Published

text \<open>
  A row of the \<open>documents\<close> table, as \<open>select("*")\<close> returns it. The pages type it
  \<open>DocumentData\<close> (\<open>id\<close>, \<open>title\<close>, \<open>content\<close>, \<open>status\<close>, \<open>user_id\<close>) and \<open>Document\<close> (with
  \<open>created_at\<close>, \<open>updated_at\<close>). Timestamps are instants in milliseconds; \<open>user_id\<close> is
  absent when the row was inserted without one. The fields are read \<open>doc.title d\<close>,
  \<open>doc.content d\<close>, as the source reads \<open>doc.title\<close>.
\<close>

record doc =
  doc_id :: string
  title :: string
  content :: json
  status :: status
  user_id :: "string option"
  created_at :: nat
  updated_at :: nat

text \<open>The object \<open>createNewDocument\<close> passes to \<open>insert([...])\<close>: the store gives the id.\<close>

record new_doc =
  title :: string
  content :: string
  user_id :: "string option"
  status :: status

text \<open>
  The object passed to \<open>update({...})\<close>: a key that the object literal does not have
  is \<open>None\<close>.
\<close>

record patch =
  title :: "string option"
  content :: "string option"
  status :: "status option"
  updated_at :: "nat option"

text \<open>What is thrown and caught: the store's error object, or JSON.parse's SyntaxError.\<close>

datatype js_error = PostgrestError string | SyntaxError

text \<open>
  The \<open>{ data, error }\<close> a store call resolves to, where the handler tests both. The
  list query's answer is read as \<open>data as Document[]\<close> once \<open>error\<close> is null: rows, or an
  error.
\<close>

record 'a response =
  data :: "'a option"
  error :: "js_error option"

datatype list_response = Rows "doc list" | RowsError js_error

text \<open>The calls the pages make on the store, one constructor for each chain they build.\<close>

datatype store_call =
    Select_single string
    \<comment> \<open>\<open>from("documents").select("*").eq("id", id).single()\<close>\<close>
  | Select_ordered
    \<comment> \<open>\<open>from("documents").select("*").order("updated_at", { ascending: false })\<close>\<close>
  | Insert_select "new_doc list"
    \<comment> \<open>\<open>from("documents").insert([...]).select()\<close>\<close>
  | Update_eq patch "string option"
    \<comment> \<open>\<open>from("documents").update({...}).eq("id", id)\<close>, the id \<open>undefined\<close> as \<open>None\<close>\<close>
  | Delete_eq string
    \<comment> \<open>\<open>from("documents").delete().eq("id", id)\<close>\<close>

text \<open>
  What a handler does to the outside, in the order it does it: a call on the store, a
  toast (title, description, variant), a navigation \<open>router.push(path)\<close>, a
  \<open>console.error\<close>.
\<close>

datatype variant = Default_variant | Destructive

datatype effect =
    Request store_call
  | Toast string string variant
  | Push string
  | ConsoleError string js_error

text \<open>The calls on the store and the navigations in a list of effects, in order.\<close>

fun requests :: "effect list \<Rightarrow> store_call list" where
  "requests [] = []"
| "requests (Request c # es) = c # requests es"
| "requests (e # es) = requests es"

fun pushes :: "effect list \<Rightarrow> string list" where
  "pushes [] = []"
| "pushes (Push p # es) = p # pushes es"
| "pushes (e # es) = pushes es"

text \<open>The state every page component has: its loading flag and what it has done so far.\<close>

record page =
  isLoading :: bool
  effects :: "effect list"

definition request :: "store_call \<Rightarrow> 'a page_scheme \<Rightarrow> 'a page_scheme" where
  "request c st = st\<lparr>effects := effects st @ [Request c]\<rparr>"

definition toast :: "string \<Rightarrow> string \<Rightarrow> variant \<Rightarrow> 'a page_scheme \<Rightarrow> 'a page_scheme" where
  "toast t d v st = st\<lparr>effects := effects st @ [Toast t d v]\<rparr>"

definition push :: "string \<Rightarrow> 'a page_scheme \<Rightarrow> 'a page_scheme" where
  "push path st = st\<lparr>effects := effects st @ [Push path]\<rparr>"

definition console_error :: "string \<Rightarrow> js_error \<Rightarrow> 'a page_scheme \<Rightarrow> 'a page_scheme" where
  "console_error msg e st = st\<lparr>effects := effects st @ [ConsoleError msg e]\<rparr>"

section \<open>The built-ins the pages call\<close>

text \<open>
  \<open>typeof c === "string" ? JSON.parse(c) : c\<close>, the expression both pages apply to the
  \<open>content\<close> column. JSON.parse is the language's built-in: a parameter \<open>parse\<close>, with
  \<open>None\<close> for the SyntaxError it throws.
\<close>

definition parse_content :: "(string \<Rightarrow> json option) \<Rightarrow> json \<Rightarrow> js_error + json" where
  "parse_content parse c =
     (case c of
        JStr s \<Rightarrow> (case parse s of None \<Rightarrow> Inl SyntaxError | Some v \<Rightarrow> Inr v)
      | _ \<Rightarrow> Inr c)"

text \<open>
  \<open>typeof content === "string" ? content : JSON.stringify(content)\<close>, the expression
  \<open>saveDocument\<close> writes; JSON.stringify is the parameter \<open>stringify\<close>.
\<close>

definition content_text :: "(json \<Rightarrow> string) \<Rightarrow> json \<Rightarrow> string" where
  "content_text stringify c = (case c of JStr s \<Rightarrow> s | _ \<Rightarrow> stringify c)"

subsection \<open>JSON.stringify and JSON.parse on concrete texts\<close>

text \<open>
  Where a page is run on a concrete record, the two parameters are these functions: the
  serializer without whitespace, and a parser of the JSON grammar with integer numbers
  and the escapes the serializer writes. A fraction, an exponent or a \<open>\u\<close> escape is
  outside what they read; no example below holds one.
\<close>

fun digits :: "nat \<Rightarrow> string" where
  "digits n =
     (if n < 10 then [char_of (48 + n)] else digits (n div 10) @ [char_of (48 + n mod 10)])"

definition show_int :: "int \<Rightarrow> string" where
  "show_int i = (if i < 0 then CHR ''-'' # digits (nat (- i)) else digits (nat i))"

fun escape :: "string \<Rightarrow> string" where
  "escape [] = []"
| "escape (c # cs) =
     (if c = CHR 0x22 then CHR 0x5C # CHR 0x22 # escape cs
      else if c = CHR 0x5C then CHR 0x5C # CHR 0x5C # escape cs
      else if c = CHR 0x0A then CHR 0x5C # CHR ''n'' # escape cs
      else if c = CHR 0x0D then CHR 0x5C # CHR ''r'' # escape cs
      else if c = CHR 0x09 then CHR 0x5C # CHR ''t'' # escape cs
      else c # escape cs)"

definition quote :: "string \<Rightarrow> string" where
  "quote s = CHR 0x22 # escape s @ [CHR 0x22]"

fun commas :: "string list \<Rightarrow> string" where
  "commas [] = []"
| "commas [s] = s"
| "commas (s # t # ss) = s @ CHR '','' # commas (t # ss)"

fun JSON_stringify :: "json \<Rightarrow> string" where
  "JSON_stringify JNull = ''null''"
| "JSON_stringify (JBool b) = (if b then ''true'' else ''false'')"
| "JSON_stringify (JNum i) = show_int i"
| "JSON_stringify (JStr s) = quote s"
| "JSON_stringify (JArr vs) = CHR ''['' # commas (map JSON_stringify vs) @ '']''"
| "JSON_stringify (JObj ms) =
     CHR ''{'' # commas (map (\<lambda>(k, v). quote k @ CHR '':'' # JSON_stringify v) ms) @ ''}''"

datatype token =
    LBrace | RBrace | LBracket | RBracket | Colon | Comma
  | TString string | TNumber int | TNull | TBool bool

definition is_digit :: "char \<Rightarrow> bool" where
  "is_digit c = ((48::nat) \<le> of_char c \<and> of_char c \<le> (57::nat))"

definition is_word_char :: "char \<Rightarrow> bool" where
  "is_word_char c =
     (is_digit c \<or> ((97::nat) \<le> of_char c \<and> of_char c \<le> (122::nat))
      \<or> ((65::nat) \<le> of_char c \<and> of_char c \<le> (90::nat)) \<or> c \<in> set ''-+.'')"

definition is_space :: "char \<Rightarrow> bool" where
  "is_space c = (c \<in> {CHR '' '', CHR 0x09, CHR 0x0A, CHR 0x0D})"

definition decimal :: "string \<Rightarrow> nat option" where
  "decimal ds =
     (if ds = [] \<or> \<not> list_all is_digit ds \<or> (hd ds = CHR ''0'' \<and> tl ds \<noteq> []) then None
      else Some (foldl (\<lambda>n c. 10 * n + (of_char c - 48)) (0::nat) ds))"

definition word_token :: "string \<Rightarrow> token option" where
  "word_token w =
     (if w = ''null'' then Some TNull
      else if w = ''true'' then Some (TBool True)
      else if w = ''false'' then Some (TBool False)
      else (case w of
              [] \<Rightarrow> None
            | c # ds \<Rightarrow>
                if c = CHR ''-'' then map_option (\<lambda>n. TNumber (- int n)) (decimal ds)
                else map_option (\<lambda>n. TNumber (int n)) (decimal w)))"

definition punctuation :: "char \<Rightarrow> token option" where
  "punctuation c =
     (if c = CHR ''{'' then Some LBrace else if c = CHR ''}'' then Some RBrace
      else if c = CHR ''['' then Some LBracket else if c = CHR '']'' then Some RBracket
      else if c = CHR '':'' then Some Colon else if c = CHR '','' then Some Comma
      else None)"

definition unescape :: "char \<Rightarrow> char option" where
  "unescape c =
     (if c = CHR 0x22 \<or> c = CHR 0x5C \<or> c = CHR ''/'' then Some c
      else if c = CHR ''n'' then Some (CHR 0x0A)
      else if c = CHR ''r'' then Some (CHR 0x0D)
      else if c = CHR ''t'' then Some (CHR 0x09)
      else if c = CHR ''b'' then Some (CHR 0x08)
      else if c = CHR ''f'' then Some (CHR 0x0C)
      else None)"

datatype lexing = Between | InString string | Escaped string | InWord string

definition start :: "char \<Rightarrow> (lexing \<times> token list) option" where
  "start c =
     (if is_space c then Some (Between, [])
      else if c = CHR 0x22 then Some (InString [], [])
      else if is_word_char c then Some (InWord [c], [])
      else map_option (\<lambda>t. (Between, [t])) (punctuation c))"

fun tokens :: "lexing \<Rightarrow> string \<Rightarrow> token list option" where
  "tokens Between [] = Some []"
| "tokens Between (c # cs) =
     (case start c of
        None \<Rightarrow> None
      | Some (l, ts) \<Rightarrow> map_option ((@) ts) (tokens l cs))"
| "tokens (InString acc) [] = None"
| "tokens (InString acc) (c # cs) =
     (if c = CHR 0x22 then map_option (Cons (TString (rev acc))) (tokens Between cs)
      else if c = CHR 0x5C then tokens (Escaped acc) cs
      else if (of_char c :: nat) < 32 then None
      else tokens (InString (c # acc)) cs)"
| "tokens (Escaped acc) [] = None"
| "tokens (Escaped acc) (c # cs) =
     (case unescape c of None \<Rightarrow> None | Some d \<Rightarrow> tokens (InString (d # acc)) cs)"
| "tokens (InWord acc) [] = map_option (\<lambda>t. [t]) (word_token (rev acc))"
| "tokens (InWord acc) (c # cs) =
     (if is_word_char c then tokens (InWord (c # acc)) cs
      else (case word_token (rev acc) of
              None \<Rightarrow> None
            | Some t \<Rightarrow>
                (case start c of
                   None \<Rightarrow> None
                 | Some (l, ts) \<Rightarrow> map_option ((@) (t # ts)) (tokens l cs))))"

text \<open>
  The values under construction, innermost first, and what the grammar allows next.
\<close>

datatype frame =
    InArray "json list"
  | InObject "(string \<times> json) list"
  | InMember "(string \<times> json) list" string

datatype expecting = Value | ValueOrClose | Key | KeyOrClose | ColonNext | AfterValue | Finished json

fun deliver :: "json \<Rightarrow> frame list \<Rightarrow> (expecting \<times> frame list) option" where
  "deliver v [] = Some (Finished v, [])"
| "deliver v (InArray vs # fs) = Some (AfterValue, InArray (v # vs) # fs)"
| "deliver v (InMember ms k # fs) = Some (AfterValue, InObject ((k, v) # ms) # fs)"
| "deliver v (InObject ms # fs) = None"

definition wants_value :: "expecting \<Rightarrow> bool" where
  "wants_value e = (e = Value \<or> e = ValueOrClose)"

definition wants_key :: "expecting \<Rightarrow> bool" where
  "wants_key e = (e = Key \<or> e = KeyOrClose)"

fun shift :: "expecting \<Rightarrow> frame list \<Rightarrow> token \<Rightarrow> (expecting \<times> frame list) option" where
  "shift e fs TNull = (if wants_value e then deliver JNull fs else None)"
| "shift e fs (TBool b) = (if wants_value e then deliver (JBool b) fs else None)"
| "shift e fs (TNumber i) = (if wants_value e then deliver (JNum i) fs else None)"
| "shift e fs (TString s) =
     (if wants_value e then deliver (JStr s) fs
      else if wants_key e then
        (case fs of InObject ms # fs' \<Rightarrow> Some (ColonNext, InMember ms s # fs') | _ \<Rightarrow> None)
      else None)"
| "shift e fs LBracket = (if wants_value e then Some (ValueOrClose, InArray [] # fs) else None)"
| "shift e fs LBrace = (if wants_value e then Some (KeyOrClose, InObject [] # fs) else None)"
| "shift e fs Colon = (if e = ColonNext then Some (Value, fs) else None)"
| "shift e fs Comma =
     (if e = AfterValue then
        (case fs of
           InArray vs # fs' \<Rightarrow> Some (Value, fs)
         | InObject ms # fs' \<Rightarrow> Some (Key, fs)
         | _ \<Rightarrow> None)
      else None)"
| "shift e fs RBracket =
     (if e = AfterValue \<or> e = ValueOrClose then
        (case fs of InArray vs # fs' \<Rightarrow> deliver (JArr (rev vs)) fs' | _ \<Rightarrow> None)
      else None)"
| "shift e fs RBrace =
     (if e = AfterValue \<or> e = KeyOrClose then
        (case fs of InObject ms # fs' \<Rightarrow> deliver (JObj (rev ms)) fs' | _ \<Rightarrow> None)
      else None)"

fun shifts :: "expecting \<Rightarrow> frame list \<Rightarrow> token list \<Rightarrow> json option" where
  "shifts e fs [] = (case e of Finished v \<Rightarrow> Some v | _ \<Rightarrow> None)"
| "shifts e fs (t # ts) =
     (case shift e fs t of None \<Rightarrow> None | Some (e', fs') \<Rightarrow> shifts e' fs' ts)"

definition JSON_parse :: "string \<Rightarrow> json option" where
  "JSON_parse s = (case tokens Between s of None \<Rightarrow> None | Some ts \<Rightarrow> shifts Value [] ts)"

subsection \<open>Strings\<close>

text \<open>
  \<open>s.toLowerCase()\<close> on the ASCII letters (a \<open>char\<close> is a byte: the capitals beyond
  ASCII are left as they are), and \<open>s.includes(q)\<close> (\<open>includes\<close> is a keyword of the prover: \<open>includes_str\<close>).
\<close>

definition lower_char :: "char \<Rightarrow> char" where
  "lower_char c =
     (if (65::nat) \<le> of_char c \<and> of_char c \<le> (90::nat) then char_of (of_char c + (32::nat)) else c)"

definition toLowerCase :: "string \<Rightarrow> string" where
  "toLowerCase s = map lower_char s"

fun starts_with :: "string \<Rightarrow> string \<Rightarrow> bool" where
  "starts_with s [] = True"
| "starts_with [] (q # qs) = False"
| "starts_with (c # cs) (q # qs) = (c = q \<and> starts_with cs qs)"

fun includes_str :: "string \<Rightarrow> string \<Rightarrow> bool" where
  "includes_str [] q = (q = [])"
| "includes_str (c # cs) q = (starts_with (c # cs) q \<or> includes_str cs q)"

section \<open>The store, as far as the pages' calls mean something to it\<close>

text \<open>
  The store is a hosted service outside the repository; the pages reach it through
  the calls above and read its answers. What the list query and an update mean on the
  table is the store's: the query, as the page writes it, asks for every row, newest
  update first, and names no owner; an update changes the columns its object has and
  no other.
\<close>

definition select_ordered :: "doc list \<Rightarrow> doc list" where
  "select_ordered rows = rev (sort_key doc.updated_at rows)"

definition update_row :: "patch \<Rightarrow> doc \<Rightarrow> doc" where
  "update_row p d =
     d\<lparr>doc.title := (case patch.title p of None \<Rightarrow> doc.title d | Some t \<Rightarrow> t),
       doc.content := (case patch.content p of None \<Rightarrow> doc.content d | Some c \<Rightarrow> JStr c),
       doc.status := (case patch.status p of None \<Rightarrow> doc.status d | Some s \<Rightarrow> s),
       doc.updated_at := (case patch.updated_at p of None \<Rightarrow> doc.updated_at d | Some t \<Rightarrow> t)\<rparr>"

section \<open>The read-only view page\<close>

text \<open>\<open>ViewDocumentPage\<close>: the state \<open>document\<close> beside the loading flag.\<close>

record view_page = page +
  document :: "doc option"

text \<open>The state at mount: \<open>useState(null)\<close>, \<open>useState(true)\<close>, nothing done yet.\<close>

definition view_mount :: view_page where
  "view_mount = \<lparr>isLoading = True, effects = [], document = None\<rparr>"

text \<open>
  \<open>fetchDocument\<close> of the view page, on the response \<open>r\<close> of
  \<open>from("documents").select("*").eq("id", params.id).single()\<close>. The \<open>finally\<close> block runs on
  every path.
\<close>

definition fetchDocument_view :: "string \<Rightarrow> doc response \<Rightarrow> view_page \<Rightarrow> view_page" where
  "fetchDocument_view params_id r st0 =
     (let st = request (Select_single params_id) (st0\<lparr>isLoading := True\<rparr>);
          st' =
            (case error r of
               Some e \<Rightarrow>
                 push ''/''
                   (toast ''Error'' ''Failed to fetch document'' Destructive
                     (console_error ''Error fetching document:'' e st))
             | None \<Rightarrow>
                 (case data r of
                    None \<Rightarrow> push ''/'' st
                  | Some d \<Rightarrow>
                      if doc.status d \<noteq> Published
                      then push ''/''
                             (toast ''Access denied''
                                ''This document is not published for viewing'' Destructive st)
                      else st\<lparr>document := Some d\<rparr>))
      in st'\<lparr>isLoading := False\<rparr>)"

text \<open>
  What a page returns when it renders. The view page: the spinner, \<open>null\<close>, or the header
  with the title over a read-only editor on the parsed content (\<open>EditorScreen\<close> is the
  editor page's, below). The content is parsed while
  rendering, outside any \<open>try\<close>: a SyntaxError leaves the render.
\<close>

datatype screen =
    Spinner
  | Blank
  | ReadOnlyDocument string json
  | EditorScreen string status "json option"

definition ViewDocumentPage :: "(string \<Rightarrow> json option) \<Rightarrow> view_page \<Rightarrow> js_error + screen" where
  "ViewDocumentPage parse st =
     (if isLoading st then Inr Spinner
      else
        (case document st of
           None \<Rightarrow> Inr Blank
         | Some d \<Rightarrow>
             (case parse_content parse (doc.content d) of
                Inl e \<Rightarrow> Inl e
              | Inr c \<Rightarrow> Inr (ReadOnlyDocument (doc.title d) c))))"

section \<open>The dashboard\<close>

text \<open>\<open>statusFilter: "all" | "draft" | "published"\<close>.\<close>

datatype status_filter = All_statuses | Only status

record dashboard = page +
  documents :: "doc list"
  searchQuery :: string
  statusFilter :: status_filter

definition dashboard_mount :: dashboard where
  "dashboard_mount =
     \<lparr>isLoading = True, effects = [], documents = [], searchQuery = [],
      statusFilter = All_statuses\<rparr>"

text \<open>\<open>fetchDocuments\<close>, on the answer \<open>r\<close> to the list query.\<close>

definition fetchDocuments :: "list_response \<Rightarrow> dashboard \<Rightarrow> dashboard" where
  "fetchDocuments r st0 =
     (let st = request Select_ordered (st0\<lparr>isLoading := True\<rparr>);
          st' =
            (case r of
               RowsError e \<Rightarrow>
                 toast ''Error'' ''Failed to fetch documents'' Destructive
                   (console_error ''Error fetching documents:'' e st)
             | Rows rows \<Rightarrow> st\<lparr>documents := rows\<rparr>)
      in st'\<lparr>isLoading := False\<rparr>)"

text \<open>The tree \<open>createNewDocument\<close> serializes: a document of one paragraph, its text empty.\<close>

definition empty_document :: json where
  "empty_document =
     JObj [(''type'', JStr ''doc''),
           (''content'',
            JArr [JObj [(''type'', JStr ''paragraph''),
                        (''content'', JArr [JObj [(''type'', JStr ''text''), (''text'', JStr [])]])]])]"

text \<open>
  \<open>createNewDocument\<close>: \<open>user\<close> is the signed-in user's id (\<open>user?.id\<close>, absent without a
  user), \<open>r\<close> the answer to the insert.
\<close>

definition createNewDocument ::
  "(json \<Rightarrow> string) \<Rightarrow> string option \<Rightarrow> doc list response \<Rightarrow> dashboard \<Rightarrow> dashboard" where
  "createNewDocument stringify user r st0 =
     (let st =
            request
              (Insert_select
                 [\<lparr>new_doc.title = ''Untitled Document'',
                   new_doc.content = stringify empty_document,
                   new_doc.user_id = user,
                   new_doc.status = Draft\<rparr>]) st0
      in case error r of
           Some e \<Rightarrow>
             toast ''Error'' ''Failed to create new document'' Destructive
               (console_error ''Error creating document:'' e st)
         | None \<Rightarrow>
             (case data r of
                Some (d # ds) \<Rightarrow> push (''/document/'' @ doc_id d) st
              | _ \<Rightarrow> st))"

text \<open>
  \<open>deleteDocument(id)\<close>, in its two parts: up to the \<open>await\<close>, where the call is made, and
  from the answer on. The second part runs on the state the page has when the answer
  arrives. \<open>documents\<close> in its filter is not that state's list: it is the list of the
  render the handler was created in, \<open>captured\<close>.
\<close>

definition deleteDocument_call :: "string \<Rightarrow> dashboard \<Rightarrow> dashboard" where
  "deleteDocument_call i st = request (Delete_eq i) st"

definition deleteDocument_answer ::
  "string \<Rightarrow> doc list \<Rightarrow> js_error option \<Rightarrow> dashboard \<Rightarrow> dashboard" where
  "deleteDocument_answer i captured err st =
     (case err of
        Some e \<Rightarrow>
          toast ''Error'' ''Failed to delete document'' Destructive
            (console_error ''Error deleting document:'' e st)
      | None \<Rightarrow>
          toast ''Success'' ''Document deleted successfully'' Default_variant
            (st\<lparr>documents := filter (\<lambda>d. doc_id d \<noteq> i) captured\<rparr>))"

text \<open>\<open>deleteDocument(id)\<close> when nothing else happens between the click and the answer.\<close>

definition deleteDocument :: "string \<Rightarrow> js_error option \<Rightarrow> dashboard \<Rightarrow> dashboard" where
  "deleteDocument i err st0 =
     deleteDocument_answer i (documents st0) err (deleteDocument_call i st0)"

text \<open>\<open>filteredDocuments\<close>, computed at every render from the three states.\<close>

definition filteredDocuments :: "dashboard \<Rightarrow> doc list" where
  "filteredDocuments st =
     filter
       (\<lambda>d. let matchesSearch =
                   includes_str (toLowerCase (doc.title d)) (toLowerCase (searchQuery st));
                 matchesStatus =
                   (statusFilter st = All_statuses \<or> Only (doc.status d) = statusFilter st)
             in matchesSearch \<and> matchesStatus)
       (documents st)"

section \<open>The debounce hook\<close>

text \<open>
  Modelled from the spec: the hook \<open>useDebounce(value, delay)\<close> of \<open>@/hooks/use-debounce\<close>,
  which the editor page imports and whose file is not among the sources. The spec: it
  emits a settled value only after the quiet interval with no further change; on every
  new value any pending timer is cancelled and restarted; only the last value within a
  quiet window is ever emitted. The hook's state: the value of the last render, the
  value it returns, and the instant its pending timer is due.
\<close>

record 'a debounce =
  seen :: 'a
  settled :: 'a
  timer :: "nat option"

text \<open>
  Modelled from the spec: \<open>useDebounce\<close> in a render at the instant \<open>now\<close>. A new value
  replaces the pending timer by one due \<open>delay\<close> later. A value is new when it is not the
  last render's by \<open>same\<close>, React's comparison of the values of that type.
\<close>

definition useDebounce ::
  "('a \<Rightarrow> 'a \<Rightarrow> bool) \<Rightarrow> nat \<Rightarrow> 'a \<Rightarrow> nat \<Rightarrow> 'a debounce \<Rightarrow> 'a debounce" where
  "useDebounce same now v delay h =
     (if same v (seen h) then h else h\<lparr>seen := v, timer := Some (now + delay)\<rparr>)"

text \<open>
  Modelled from the spec: the timer of \<open>useDebounce\<close> running out, which emits the value
  it was started for.
\<close>

definition expire :: "'a debounce \<Rightarrow> 'a debounce" where
  "expire h = h\<lparr>settled := seen h, timer := None\<rparr>"

section \<open>The editor page\<close>

text \<open>
  \<open>DocumentPage\<close>: the states \<open>document\<close>, \<open>title\<close>, \<open>content\<close>, \<open>status\<close>, \<open>isLoading\<close>,
  \<open>isSaving\<close>, the two debounce hooks, and the dependency values
  \<open>[debouncedContent, debouncedTitle]\<close> of the last render, which the saving effect
  compares with. \<open>contentId\<close> says which object \<open>content\<close> is: every \<open>setContent\<close> of the page
  is handed an object the page has not held before, and gives it the next identity.
  The content's hook and the dependency hold the content with its identity.
\<close>

record editor = view_page +
  title :: string
  content :: json
  contentId :: nat
  status :: status
  isSaving :: bool
  contentDebounce :: "(nat \<times> json) debounce"
  titleDebounce :: "string debounce"
  deps :: "(nat \<times> json) \<times> string"

definition debouncedContent :: "editor \<Rightarrow> json" where
  "debouncedContent st = snd (settled (contentDebounce st))"

definition debouncedTitle :: "editor \<Rightarrow> string" where
  "debouncedTitle st = settled (titleDebounce st)"

text \<open>
  The state after the first render: the initial values of \<open>useState\<close>, both hooks
  settled on them, and the saving effect run once on a null content, where it does
  nothing.
\<close>

definition editor_mount :: editor where
  "editor_mount =
     \<lparr>isLoading = True, effects = [], document = None,
      title = [], content = JNull, contentId = 0, status = Draft, isSaving = False,
      contentDebounce = \<lparr>seen = (0, JNull), settled = (0, JNull), timer = None\<rparr>,
      titleDebounce = \<lparr>seen = [], settled = [], timer = None\<rparr>,
      deps = ((0, JNull), [])\<rparr>"

text \<open>
  \<open>fetchDocument\<close> of the editor page. \<open>setDocument\<close> and \<open>setTitle\<close> have run when
  JSON.parse throws; the \<open>catch\<close> block is the same for the store's error and the
  SyntaxError. The content it sets, parsed or taken from the answer, is a new object.
\<close>

definition fetch_failed :: "js_error \<Rightarrow> editor \<Rightarrow> editor" where
  "fetch_failed e st =
     push ''/dashboard''
       (toast ''Error'' ''Failed to fetch document'' Destructive
         (console_error ''Error fetching document:'' e st))"

definition fetchDocument ::
  "(string \<Rightarrow> json option) \<Rightarrow> string \<Rightarrow> doc response \<Rightarrow> editor \<Rightarrow> editor" where
  "fetchDocument parse params_id r st0 =
     (let st = request (Select_single params_id) (st0\<lparr>isLoading := True\<rparr>);
          st' =
            (case error r of
               Some e \<Rightarrow> fetch_failed e st
             | None \<Rightarrow>
                 (case data r of
                    None \<Rightarrow> push ''/dashboard'' st
                  | Some d \<Rightarrow>
                      (let st1 = st\<lparr>document := Some d, title := doc.title d\<rparr>
                       in case parse_content parse (doc.content d) of
                            Inl e \<Rightarrow> fetch_failed e st1
                          | Inr c \<Rightarrow>
                              st1\<lparr>content := c, contentId := Suc (contentId st1),
                                  status := doc.status d\<rparr>)))
      in st'\<lparr>isLoading := False\<rparr>)"

text \<open>
  \<open>saveDocument\<close>: \<open>user\<close> is the signed-in user's id, \<open>now\<close> the clock read by
  \<open>new Date()\<close>, \<open>err\<close> the \<open>error\<close> of the store's answer.
\<close>

definition saveDocument ::
  "(json \<Rightarrow> string) \<Rightarrow> string option \<Rightarrow> nat \<Rightarrow> js_error option \<Rightarrow> editor \<Rightarrow> editor" where
  "saveDocument stringify user now err st0 =
     (case document st0 of
        None \<Rightarrow> st0
      | Some d \<Rightarrow>
          (case user of
             None \<Rightarrow> st0
           | Some u \<Rightarrow>
               (let st =
                      request
                        (Update_eq
                           \<lparr>patch.title = Some (title st0),
                             patch.content = Some (content_text stringify (content st0)),
                             patch.status = Some (status st0),
                             patch.updated_at = Some now\<rparr>
                           (Some (doc_id d)))
                        (st0\<lparr>isSaving := True\<rparr>);
                    st' =
                      (case err of
                         Some e \<Rightarrow>
                           toast ''Error'' ''Failed to save document'' Destructive
                             (console_error ''Error saving document:'' e st)
                       | None \<Rightarrow> st)
                in st'\<lparr>isSaving := False\<rparr>)))"

text \<open>\<open>handleStatusChange(newStatus)\<close>: the id is \<open>document?.id\<close>.\<close>

definition handleStatusChange :: "nat \<Rightarrow> status \<Rightarrow> js_error option \<Rightarrow> editor \<Rightarrow> editor" where
  "handleStatusChange now newStatus err st0 =
     (let st =
            request
              (Update_eq
                 \<lparr>patch.title = None, patch.content = None,
                   patch.status = Some newStatus, patch.updated_at = Some now\<rparr>
                 (map_option doc_id (document st0)))
              (st0\<lparr>status := newStatus\<rparr>)
      in case err of
           Some e \<Rightarrow>
             toast ''Error'' ''Failed to update document status'' Destructive
               (console_error ''Error updating status:'' e st)
         | None \<Rightarrow>
             toast ''Status updated''
               (''Document is now '' @
                  (if newStatus = Published then ''published'' else ''saved as draft''))
               Default_variant st)"

text \<open>\<open>handleManualSave\<close>: the toast follows \<open>await saveDocument()\<close>.\<close>

definition handleManualSave ::
  "(json \<Rightarrow> string) \<Rightarrow> string option \<Rightarrow> nat \<Rightarrow> js_error option \<Rightarrow> editor \<Rightarrow> editor" where
  "handleManualSave stringify user now err st =
     toast ''Document saved'' ''Your document has been saved successfully'' Default_variant
       (saveDocument stringify user now err st)"

text \<open>
  What \<open>DocumentPage\<close> returns: the spinner, or the bar with the title and the status
  over \<open>content && <TiptapEditor initialContent={content} />\<close>.
\<close>

definition DocumentPage :: "editor \<Rightarrow> screen" where
  "DocumentPage st =
     (if isLoading st then Spinner
      else EditorScreen (title st) (status st)
             (if truthy (content st) then Some (content st) else None))"

subsection \<open>Renders, timers and edits in time\<close>

text \<open>
  React's comparison of the dependencies \<open>[debouncedContent, debouncedTitle]\<close> of two
  renders, item by item with \<open>Object.is\<close>: the content with its identity, the title, a
  string, by its value.
\<close>

definition same_deps :: "(nat \<times> json) \<times> string \<Rightarrow> (nat \<times> json) \<times> string \<Rightarrow> bool" where
  "same_deps d e = (Object_is (fst d) (fst e) \<and> snd d = snd e)"

text \<open>
  The hooks of \<open>DocumentPage\<close> in a render at the instant \<open>now\<close>:
  \<open>useDebounce(content, 1000)\<close>, \<open>useDebounce(title, 1000)\<close>, and the effect on
  \<open>[debouncedContent, debouncedTitle]\<close>, which runs when one of the two is not the last
  render's:
  \<open>if (debouncedContent && document) saveDocument()\<close>. The store answers the update made
  at \<open>now\<close> with the error \<open>answer now\<close>.
\<close>

definition hooks ::
  "(json \<Rightarrow> string) \<Rightarrow> string option \<Rightarrow> (nat \<Rightarrow> js_error option) \<Rightarrow> nat \<Rightarrow> editor \<Rightarrow> editor" where
  "hooks stringify user answer now st0 =
     (let st =
            st0\<lparr>contentDebounce :=
                  useDebounce Object_is now (contentId st0, content st0) 1000 (contentDebounce st0),
                titleDebounce := useDebounce (=) now (title st0) 1000 (titleDebounce st0)\<rparr>;
          d = (settled (contentDebounce st), settled (titleDebounce st))
      in if same_deps d (deps st) then st
         else
           (let st' = st\<lparr>deps := d\<rparr>
            in if truthy (debouncedContent st') \<and> document st' \<noteq> None
               then saveDocument stringify user now (answer now) st'
               else st'))"

text \<open>
  A timer that is due by \<open>t\<close> runs out at its own instant, and the page renders again
  then.
\<close>

definition fire_content ::
  "(json \<Rightarrow> string) \<Rightarrow> string option \<Rightarrow> (nat \<Rightarrow> js_error option) \<Rightarrow> nat \<Rightarrow> editor \<Rightarrow> editor" where
  "fire_content stringify user answer t st =
     (case timer (contentDebounce st) of
        None \<Rightarrow> st
      | Some at \<Rightarrow>
          if at \<le> t
          then hooks stringify user answer at (st\<lparr>contentDebounce := expire (contentDebounce st)\<rparr>)
          else st)"

definition fire_title ::
  "(json \<Rightarrow> string) \<Rightarrow> string option \<Rightarrow> (nat \<Rightarrow> js_error option) \<Rightarrow> nat \<Rightarrow> editor \<Rightarrow> editor" where
  "fire_title stringify user answer t st =
     (case timer (titleDebounce st) of
        None \<Rightarrow> st
      | Some at \<Rightarrow>
          if at \<le> t
          then hooks stringify user answer at (st\<lparr>titleDebounce := expire (titleDebounce st)\<rparr>)
          else st)"

text \<open>
  Time passing up to \<open>t\<close>: the timers due by then run out, the earlier first (the
  content's on a tie).
\<close>

definition content_first :: "editor \<Rightarrow> bool" where
  "content_first st =
     (case (timer (contentDebounce st), timer (titleDebounce st)) of
        (Some a, Some b) \<Rightarrow> a \<le> b
      | _ \<Rightarrow> True)"

definition advance ::
  "(json \<Rightarrow> string) \<Rightarrow> string option \<Rightarrow> (nat \<Rightarrow> js_error option) \<Rightarrow> nat \<Rightarrow> editor \<Rightarrow> editor" where
  "advance stringify user answer t st =
     (if content_first st
      then fire_title stringify user answer t (fire_content stringify user answer t st)
      else fire_content stringify user answer t (fire_title stringify user answer t st))"

text \<open>
  The user's edits: the editor's \<open>onChange={setContent}\<close>, which the editor calls with
  \<open>editor.getJSON()\<close>, a new object at every update (\<open>SetContent\<close> has its members), and the
  title input's \<open>onChange\<close>. An edit at the instant \<open>t\<close> comes after the timers due by \<open>t\<close>,
  and the page renders with the new state.
\<close>

datatype edit = SetContent "(string \<times> json) list" | SetTitle string

fun apply_edit :: "edit \<Rightarrow> editor \<Rightarrow> editor" where
  "apply_edit (SetContent ms) st = st\<lparr>content := JObj ms, contentId := Suc (contentId st)\<rparr>"
| "apply_edit (SetTitle t) st = st\<lparr>title := t\<rparr>"

fun run ::
  "(json \<Rightarrow> string) \<Rightarrow> string option \<Rightarrow> (nat \<Rightarrow> js_error option) \<Rightarrow> (nat \<times> edit) list \<Rightarrow> editor
    \<Rightarrow> editor" where
  "run stringify user answer [] st = st"
| "run stringify user answer ((t, e) # es) st =
     run stringify user answer es
       (hooks stringify user answer t (apply_edit e (advance stringify user answer t st)))"

section \<open>Records the pages are run on\<close>

text \<open>
  The three documents of the spec's dashboard example, two of them of one user and one
  of another, and a published document whose stored content is no JSON text.
\<close>

definition plan_a :: doc where
  "plan_a =
     \<lparr>doc_id = ''a1'', doc.title = ''Plan A'', doc.content = JStr (JSON_stringify empty_document),
      doc.status = Draft, doc.user_id = Some ''alice'', created_at = 10, doc.updated_at = 30\<rparr>"

definition plan_b :: doc where
  "plan_b =
     \<lparr>doc_id = ''b1'', doc.title = ''Plan B'', doc.content = empty_document,
      doc.status = Published, doc.user_id = Some ''bob'', created_at = 20, doc.updated_at = 40\<rparr>"

definition notes_doc :: doc where
  "notes_doc =
     \<lparr>doc_id = ''a2'', doc.title = ''Notes'', doc.content = JNull,
      doc.status = Draft, doc.user_id = Some ''alice'', created_at = 5, doc.updated_at = 50\<rparr>"

definition broken :: doc where
  "broken =
     \<lparr>doc_id = ''c1'', doc.title = ''Broken'', doc.content = JStr ''{'',
      doc.status = Published, doc.user_id = Some ''alice'', created_at = 1, doc.updated_at = 2\<rparr>"

text \<open>
  A document whose stored content is the JSON text of a string, \<open>"hello"\<close> with its
  quotes.
\<close>

definition quoted :: doc where
  "quoted =
     \<lparr>doc_id = ''q1'', doc.title = ''Quoted'', doc.content = JStr (JSON_stringify (JStr ''hello'')),
      doc.status = Draft, doc.user_id = Some ''alice'', created_at = 3, doc.updated_at = 4\<rparr>"

text \<open>
  The dashboard listing the three documents; the same with the deletion of \<open>plan_a\<close>
  clicked; and with the deletion of \<open>notes_doc\<close> clicked after it, neither call answered
  yet.
\<close>

definition listed :: dashboard where
  "listed = fetchDocuments (Rows (select_ordered [plan_a, plan_b, notes_doc])) dashboard_mount"

definition first_clicked :: dashboard where
  "first_clicked = deleteDocument_call ''a1'' listed"

definition both_clicked :: dashboard where
  "both_clicked = deleteDocument_call ''a2'' first_clicked"

text \<open>The editor page after it has fetched \<open>plan_a\<close>.\<close>

definition loaded :: editor where
  "loaded = fetchDocument JSON_parse ''a1'' \<lparr>data = Some plan_a, error = None\<rparr> editor_mount"

section \<open>Bursts of edits\<close>

text \<open>
  A page at rest: no timer pending, both hooks settled on the current title and
  content, and the saving effect run on them.
\<close>

definition quiet :: "editor \<Rightarrow> bool" where
  "quiet st =
     (contentDebounce st =
        \<lparr>seen = (contentId st, content st), settled = (contentId st, content st), timer = None\<rparr>
      \<and> titleDebounce st = \<lparr>seen = title st, settled = title st, timer = None\<rparr>
      \<and> deps st = ((contentId st, content st), title st))"

text \<open>
  A burst of changes, each at its instant: every change comes while the timer of the
  change before it (due at \<open>w\<close>) is still pending.
\<close>

fun restarts :: "nat option \<Rightarrow> (nat \<times> 'a) list \<Rightarrow> bool" where
  "restarts w [] = True"
| "restarts w ((t, c) # es) =
     ((case w of None \<Rightarrow> True | Some due \<Rightarrow> due \<le> t + 1000 \<and> t < due)
      \<and> restarts (Some (t + 1000)) es)"

definition content_edits :: "(nat \<times> (string \<times> json) list) list \<Rightarrow> (nat \<times> edit) list" where
  "content_edits es = map (\<lambda>(t, ms). (t, SetContent ms)) es"

text \<open>What the editor emits for a document of one paragraph with the text \<open>s\<close>.\<close>

definition one_paragraph :: "string \<Rightarrow> (string \<times> json) list" where
  "one_paragraph s =
     [(''type'', JStr ''doc''),
      (''content'',
       JArr [JObj [(''type'', JStr ''paragraph''),
                   (''content'', JArr [JObj [(''type'', JStr ''text''), (''text'', JStr s)]])]])]"

definition typed :: "string \<Rightarrow> json" where
  "typed s = JObj (one_paragraph s)"

text \<open>
  The editor page showing \<open>plan_a\<close> at rest; the spec's burst of four changes at 0, 100,
  300 and 950 ms; a burst that ends on a content equal to the one the page started
  from; the page after the first change of the spec's burst, its timer pending; the
  page when that burst's timer has just run out, the title edited to
  "Plan Z" at 1900 ms and not settled yet; and the page that has just fetched a document
  for the user \<open>alice\<close> and rendered at the instant 0, with a store that answers every
  update without error.
\<close>

definition at_rest :: editor where
  "at_rest =
     \<lparr>isLoading = False, effects = [], document = Some plan_a,
      title = ''Plan A'', content = empty_document, contentId = 1, status = Draft,
      isSaving = False,
      contentDebounce = \<lparr>seen = (1, empty_document), settled = (1, empty_document), timer = None\<rparr>,
      titleDebounce = \<lparr>seen = ''Plan A'', settled = ''Plan A'', timer = None\<rparr>,
      deps = ((1, empty_document), ''Plan A'')\<rparr>"

definition keystrokes :: "(nat \<times> (string \<times> json) list) list" where
  "keystrokes =
     [(0, one_paragraph ''H''), (100, one_paragraph ''He''), (300, one_paragraph ''Hel''),
      (950, one_paragraph ''Hell'')]"

definition typed_and_erased :: "(nat \<times> (string \<times> json) list) list" where
  "typed_and_erased = [(0, one_paragraph ''H''), (400, one_paragraph [])]"

definition mid_burst :: editor where
  "mid_burst =
     at_rest
       \<lparr>content := typed ''H'', contentId := 2,
        contentDebounce := \<lparr>seen = (2, typed ''H''), settled = (1, empty_document), timer = Some 1000\<rparr>\<rparr>"

definition just_settled :: editor where
  "just_settled =
     at_rest
       \<lparr>title := ''Plan Z'', content := typed ''Hell'', contentId := 5,
        contentDebounce := \<lparr>seen = (5, typed ''Hell''), settled = (5, typed ''Hell''), timer = None\<rparr>,
        titleDebounce := \<lparr>seen = ''Plan Z'', settled = ''Plan A'', timer = Some 2900\<rparr>\<rparr>"

definition opened :: "doc \<Rightarrow> editor" where
  "opened d =
     hooks JSON_stringify (Some ''alice'') (\<lambda>t. None) 0
       (fetchDocument JSON_parse (doc_id d) \<lparr>data = Some d, error = None\<rparr> editor_mount)"

section \<open>Facts used throughout\<close>

lemma JSON_parse_brace: "JSON_parse ''{'' = None"
  by (simp add: JSON_parse_def start_def is_space_def is_word_char_def is_digit_def
      punctuation_def)

lemma JSON_parse_empty_document:
  "JSON_parse (JSON_stringify empty_document) = Some empty_document"
  by code_simp

lemma effects_simps:
  "effects (request c st) = effects st @ [Request c]"
  "effects (toast t d v st) = effects st @ [Toast t d v]"
  "effects (push p st) = effects st @ [Push p]"
  "effects (console_error m e st) = effects st @ [ConsoleError m e]"
  by (simp_all add: request_def toast_def push_def console_error_def)

lemma isLoading_simps:
  "isLoading (request c st) = isLoading st"
  "isLoading (toast t d v st) = isLoading st"
  "isLoading (push p st) = isLoading st"
  "isLoading (console_error m e st) = isLoading st"
  by (simp_all add: request_def toast_def push_def console_error_def)

lemma document_simps:
  "document (request c st) = document st"
  "document (toast t d v st) = document st"
  "document (push p st) = document st"
  "document (console_error m e st) = document st"
  by (simp_all add: request_def toast_def push_def console_error_def)

lemma requests_append: "requests (es @ fs) = requests es @ requests fs"
  by (induction es rule: requests.induct) simp_all

lemma pushes_append: "pushes (es @ fs) = pushes es @ pushes fs"
  by (induction es rule: pushes.induct) simp_all

lemma loaded_fields:
  "document loaded = Some plan_a"
  "title loaded = ''Plan A''"
  "content loaded = empty_document"
  "status loaded = Draft"
  "effects loaded = [Request (Select_single ''a1'')]"
  by (simp_all add: loaded_def fetchDocument_def editor_mount_def plan_a_def parse_content_def
      JSON_parse_empty_document request_def)

section \<open>The view page's gate\<close>

text \<open>
  A published document whose stored content is the text \<open>{\<close>: the fetch stores it, and
  the render throws on JSON.parse. The page does not render a published document here.
\<close>

theorem view_gate_counterexample:
  "doc.status broken = Published \<and>
   ViewDocumentPage JSON_parse
     (fetchDocument_view ''c1'' \<lparr>data = Some broken, error = None\<rparr> view_mount)
     = Inl SyntaxError"
  by (simp add: broken_def ViewDocumentPage_def fetchDocument_view_def view_mount_def
      parse_content_def JSON_parse_brace document_simps)

text \<open>
  C1, amended. For every fetch of a document \<open>d\<close> by the view page, whoever asks (the
  page knows no requester): when \<open>d\<close> is published the fetch stores it, shows no toast and
  does not navigate, and the page renders it if its stored content deserializes; when
  \<open>d\<close> is a draft the fetch shows the toast "Access denied", navigates to \<open>/\<close> and leaves
  the page's document as it was, so that a page that held none renders nothing. A page
  that held no document renders \<open>d\<close> only if \<open>d\<close> is published and its content
  deserializes.
\<close>

theorem view_gate:
  fixes parse :: "string \<Rightarrow> json option" and d :: doc and i :: string and st :: view_page
  defines "st' \<equiv> fetchDocument_view i \<lparr>data = Some d, error = None\<rparr> st"
  shows
    "(doc.status d = Published \<longrightarrow>
        document st' = Some d \<and> effects st' = effects st @ [Request (Select_single i)] \<and>
        (\<forall>c. parse_content parse (doc.content d) = Inr c \<longrightarrow>
           ViewDocumentPage parse st' = Inr (ReadOnlyDocument (doc.title d) c)))
     \<and> (doc.status d = Draft \<longrightarrow>
        document st' = document st \<and>
        effects st' = effects st @
          [Request (Select_single i),
           Toast ''Access denied'' ''This document is not published for viewing'' Destructive,
           Push ''/''] \<and>
        (document st = None \<longrightarrow> ViewDocumentPage parse st' = Inr Blank))
     \<and> ((\<exists>c. ViewDocumentPage parse st' = Inr (ReadOnlyDocument (doc.title d) c)) \<longrightarrow>
          document st = None \<longrightarrow>
          doc.status d = Published \<and> (\<exists>c. parse_content parse (doc.content d) = Inr c))"
  unfolding st'_def
  by (cases "doc.status d")
    (auto simp: fetchDocument_view_def ViewDocumentPage_def effects_simps document_simps
      isLoading_simps split: sum.splits option.splits)

theorem view_gate_witness:
  "ViewDocumentPage JSON_parse
     (fetchDocument_view ''b1'' \<lparr>data = Some plan_b, error = None\<rparr> view_mount)
     = Inr (ReadOnlyDocument (doc.title plan_b) empty_document)
   \<and> ViewDocumentPage JSON_parse
     (fetchDocument_view ''a1'' \<lparr>data = Some plan_a, error = None\<rparr> view_mount)
     = Inr Blank
   \<and> effects (fetchDocument_view ''a1'' \<lparr>data = Some plan_a, error = None\<rparr> view_mount)
     = effects view_mount @
       [Request (Select_single ''a1''),
        Toast ''Access denied'' ''This document is not published for viewing'' Destructive,
        Push ''/'']
   \<and> doc.status plan_b = Published
   \<and> (\<exists>c. parse_content JSON_parse (doc.content plan_b) = Inr c)"
proof -
  have b: "doc.status plan_b = Published"
    by (simp add: plan_b_def)
  have c: "parse_content JSON_parse (doc.content plan_b) = Inr empty_document"
    by (simp add: plan_b_def parse_content_def empty_document_def)
  have a: "doc.status plan_a = Draft"
    by (simp add: plan_a_def)
  have m: "document view_mount = None"
    by (simp add: view_mount_def)
  from view_gate [where d = plan_b and i = "''b1''" and st = view_mount and parse = JSON_parse]
    b c
  have 1: "ViewDocumentPage JSON_parse
     (fetchDocument_view ''b1'' \<lparr>data = Some plan_b, error = None\<rparr> view_mount)
     = Inr (ReadOnlyDocument (doc.title plan_b) empty_document)"
    by blast
  from view_gate [where d = plan_a and i = "''a1''" and st = view_mount and parse = JSON_parse]
    a m
  have 2: "ViewDocumentPage JSON_parse
     (fetchDocument_view ''a1'' \<lparr>data = Some plan_a, error = None\<rparr> view_mount)
     = Inr Blank
   \<and> effects (fetchDocument_view ''a1'' \<lparr>data = Some plan_a, error = None\<rparr> view_mount)
     = effects view_mount @
       [Request (Select_single ''a1''),
        Toast ''Access denied'' ''This document is not published for viewing'' Destructive,
        Push ''/'']"
    by blast
  from 1 view_gate [where d = plan_b and i = "''b1''" and st = view_mount and parse = JSON_parse] m
  have 3: "doc.status plan_b = Published
     \<and> (\<exists>c. parse_content JSON_parse (doc.content plan_b) = Inr c)"
    by blast
  from 1 2 3 show ?thesis
    by blast
qed

section \<open>The dashboard's list\<close>

text \<open>
  C2. The list query names no owner, and \<open>fetchDocuments\<close> keeps every row of the answer:
  on a table with two documents of \<open>alice\<close> and one of \<open>bob\<close> the dashboard lists all three,
  newest update first, whoever is signed in.
\<close>

theorem listing_names_no_owner:
  "documents (fetchDocuments (Rows (select_ordered [plan_a, plan_b, notes_doc])) dashboard_mount)
     = [notes_doc, plan_b, plan_a]
   \<and> doc.user_id plan_a = Some ''alice'' \<and> doc.user_id notes_doc = Some ''alice''
   \<and> doc.user_id plan_b = Some ''bob''
   \<and> effects (fetchDocuments (Rows (select_ordered [plan_a, plan_b, notes_doc])) dashboard_mount)
     = [Request Select_ordered]"
  by (simp add: fetchDocuments_def select_ordered_def dashboard_mount_def plan_a_def plan_b_def
      notes_doc_def effects_simps request_def)

section \<open>Content that does not deserialize\<close>

text \<open>
  C3. A fetched document whose stored content is a string that JSON.parse rejects. The
  editor page, from its mount: the toast "Failed to fetch document", the navigation to
  \<open>/dashboard\<close>, and a screen with no editor. The view page, when the document is
  published: the fetch stores the document without a toast or a navigation, and the
  render throws the SyntaxError.
\<close>

theorem parse_failure_pages:
  assumes "doc.content d = JStr s" and "parse s = None"
  shows
    "effects (fetchDocument parse i \<lparr>data = Some d, error = None\<rparr> editor_mount) =
       [Request (Select_single i),
        ConsoleError ''Error fetching document:'' SyntaxError,
        Toast ''Error'' ''Failed to fetch document'' Destructive,
        Push ''/dashboard'']
     \<and> DocumentPage (fetchDocument parse i \<lparr>data = Some d, error = None\<rparr> editor_mount) =
         EditorScreen (doc.title d) Draft None
     \<and> (doc.status d = Published \<longrightarrow>
          ViewDocumentPage parse
            (fetchDocument_view i \<lparr>data = Some d, error = None\<rparr> view_mount) = Inl SyntaxError
          \<and> effects (fetchDocument_view i \<lparr>data = Some d, error = None\<rparr> view_mount) =
              [Request (Select_single i)])"
  using assms
  by (simp add: fetchDocument_def fetch_failed_def DocumentPage_def editor_mount_def
      parse_content_def fetchDocument_view_def ViewDocumentPage_def view_mount_def
      request_def toast_def push_def console_error_def)

theorem parse_failure_pages_witness:
  "effects (fetchDocument JSON_parse ''c1'' \<lparr>data = Some broken, error = None\<rparr> editor_mount) =
       [Request (Select_single ''c1''),
        ConsoleError ''Error fetching document:'' SyntaxError,
        Toast ''Error'' ''Failed to fetch document'' Destructive,
        Push ''/dashboard'']
   \<and> ViewDocumentPage JSON_parse
        (fetchDocument_view ''c1'' \<lparr>data = Some broken, error = None\<rparr> view_mount)
        = Inl SyntaxError
   \<and> effects (fetchDocument_view ''c1'' \<lparr>data = Some broken, error = None\<rparr> view_mount) =
        [Request (Select_single ''c1'')]"
proof -
  have c: "doc.content broken = JStr ''{''" and p: "doc.status broken = Published"
    by (simp_all add: broken_def)
  from parse_failure_pages [where d = broken and s = "''{''" and parse = JSON_parse
      and i = "''c1''"] c p JSON_parse_brace
  show ?thesis
    by blast
qed

section \<open>Saving\<close>

text \<open>
  C5. A save whose update the store answers with an error (the page has a document
  and a user is signed in, so the call is made): after the request the handler logs
  the error and shows the toast "Failed to save document", and does nothing else. It
  does not navigate, and title, content, status and document are what they were, so
  the screen is the same and a second save sends the same edits. The other update the
  page makes, the status change, fails the same way: the log, the toast "Failed to
  update document status", no navigation, title and content as they were, and the
  status the user has just chosen kept in memory.
\<close>

theorem failed_save_keeps_edits:
  fixes st :: editor and stringify :: "json \<Rightarrow> string" and user :: "string option"
    and now :: nat and e :: js_error and newStatus :: status
  assumes "document st = Some d" and "user = Some u"
  defines "st' \<equiv> saveDocument stringify user now (Some e) st"
    and "st'' \<equiv> handleStatusChange now newStatus (Some e) st"
  shows
    "effects st' = effects st @
       [Request
          (Update_eq
             \<lparr>patch.title = Some (title st),
               patch.content = Some (content_text stringify (content st)),
               patch.status = Some (status st),
               patch.updated_at = Some now\<rparr>
             (Some (doc_id d))),
        ConsoleError ''Error saving document:'' e,
        Toast ''Error'' ''Failed to save document'' Destructive]
     \<and> pushes (effects st') = pushes (effects st)
     \<and> title st' = title st \<and> content st' = content st \<and> status st' = status st
     \<and> document st' = document st
     \<and> DocumentPage st' = DocumentPage (st\<lparr>isSaving := False\<rparr>)
     \<and> effects st'' = effects st @
       [Request
          (Update_eq
             \<lparr>patch.title = None, patch.content = None,
               patch.status = Some newStatus, patch.updated_at = Some now\<rparr>
             (Some (doc_id d))),
        ConsoleError ''Error updating status:'' e,
        Toast ''Error'' ''Failed to update document status'' Destructive]
     \<and> pushes (effects st'') = pushes (effects st)
     \<and> title st'' = title st \<and> content st'' = content st \<and> status st'' = newStatus
     \<and> document st'' = document st"
  using assms(1,2) unfolding st'_def st''_def
  by (auto simp: saveDocument_def handleStatusChange_def DocumentPage_def request_def toast_def
      console_error_def pushes_append)

theorem failed_save_keeps_edits_witness:
  "effects (saveDocument JSON_stringify (Some ''alice'') 7 (Some (PostgrestError ''offline'')) loaded)
     = effects loaded @
       [Request
          (Update_eq
             \<lparr>patch.title = Some (title loaded),
               patch.content = Some (content_text JSON_stringify (content loaded)),
               patch.status = Some (status loaded),
               patch.updated_at = Some 7\<rparr>
             (Some (doc_id plan_a))),
        ConsoleError ''Error saving document:'' (PostgrestError ''offline''),
        Toast ''Error'' ''Failed to save document'' Destructive]
   \<and> pushes
        (effects (saveDocument JSON_stringify (Some ''alice'') 7 (Some (PostgrestError ''offline''))
           loaded)) = pushes (effects loaded)
   \<and> title (saveDocument JSON_stringify (Some ''alice'') 7 (Some (PostgrestError ''offline'')) loaded)
     = title loaded
   \<and> content (saveDocument JSON_stringify (Some ''alice'') 7 (Some (PostgrestError ''offline'')) loaded)
     = content loaded
   \<and> status (saveDocument JSON_stringify (Some ''alice'') 7 (Some (PostgrestError ''offline'')) loaded)
     = status loaded
   \<and> status (handleStatusChange 7 Published (Some (PostgrestError ''offline'')) loaded) = Published"
  using failed_save_keeps_edits [where st = loaded and d = plan_a and user = "Some ''alice''"
      and u = "''alice''" and stringify = JSON_stringify and now = 7
      and e = "PostgrestError ''offline''" and newStatus = Published, OF loaded_fields(1) refl]
  by blast

text \<open>
  The document \<open>quoted\<close>, whose stored content is the JSON text of the string hello: the
  editor page loads the string, and a save writes it as it is, hello without its
  quotes, which is not the serialization of the content and is no JSON text at all.
\<close>

theorem string_content_written_raw:
  "content (fetchDocument JSON_parse ''q1'' \<lparr>data = Some quoted, error = None\<rparr> editor_mount) =
     JStr ''hello''
   \<and> requests
       (effects
          (saveDocument JSON_stringify (Some ''alice'') 7 None
             (fetchDocument JSON_parse ''q1'' \<lparr>data = Some quoted, error = None\<rparr> editor_mount))) =
       [Select_single ''q1'',
        Update_eq
          \<lparr>patch.title = Some ''Quoted'', patch.content = Some ''hello'',
            patch.status = Some Draft, patch.updated_at = Some 7\<rparr>
          (Some ''q1'')]
   \<and> JSON_stringify (JStr ''hello'') \<noteq> ''hello''
   \<and> JSON_parse ''hello'' = None"
  by code_simp

text \<open>
  C7, amended. With a document on the page and a user signed in, \<open>saveDocument\<close> (an autosave or
  the manual save) and \<open>handleStatusChange\<close> each make exactly one call on the store, an
  update of the page's document whose object carries \<open>updated_at\<close>, the clock's reading.
  The save writes the content as text: the serialization \<open>stringify content\<close> unless the
  content is a string already, which is written as it is. The status change's object
  has \<open>status\<close> and \<open>updated_at\<close> and no other key: on the row it changes these two
  columns and leaves the rest, title and content among them.
\<close>

theorem writes_refresh_updated_at:
  fixes st :: editor and stringify :: "json \<Rightarrow> string" and now :: nat
    and newStatus :: status
  assumes "document st = Some d" and "user = Some u"
  defines "saved \<equiv>
     \<lparr>patch.title = Some (title st),
       patch.content = Some (content_text stringify (content st)),
       patch.status = Some (status st),
       patch.updated_at = Some now\<rparr>"
    and "changed \<equiv>
     \<lparr>patch.title = None, patch.content = None,
       patch.status = Some newStatus, patch.updated_at = Some now\<rparr>"
  shows
    "requests (effects (saveDocument stringify user now err st)) =
       requests (effects st) @ [Update_eq saved (Some (doc_id d))]
     \<and> requests (effects (handleManualSave stringify user now err st)) =
       requests (effects st) @ [Update_eq saved (Some (doc_id d))]
     \<and> requests (effects (handleStatusChange now newStatus err st)) =
       requests (effects st) @ [Update_eq changed (Some (doc_id d))]
     \<and> (\<not> is_string (content st) \<longrightarrow>
          patch.content saved = Some (stringify (content st)))
     \<and> (\<forall>s. content st = JStr s \<longrightarrow> patch.content saved = Some s)
     \<and> update_row saved row =
          row\<lparr>doc.title := title st,
              doc.content := JStr (content_text stringify (content st)),
              doc.status := status st,
              doc.updated_at := now\<rparr>
     \<and> update_row changed row = row\<lparr>doc.status := newStatus, doc.updated_at := now\<rparr>"
  using assms(1,2) unfolding saved_def changed_def
  by (cases err; cases "content st")
    (auto simp: saveDocument_def handleManualSave_def handleStatusChange_def update_row_def
      content_text_def request_def toast_def console_error_def requests_append)

theorem writes_refresh_updated_at_witness:
  "requests (effects (saveDocument JSON_stringify (Some ''alice'') 7 None loaded)) =
     requests (effects loaded) @
       [Update_eq
          \<lparr>patch.title = Some (title loaded),
            patch.content = Some (content_text JSON_stringify (content loaded)),
            patch.status = Some (status loaded),
            patch.updated_at = Some 7\<rparr>
          (Some (doc_id plan_a))]
   \<and> requests (effects (handleStatusChange 7 Published None loaded)) =
     requests (effects loaded) @
       [Update_eq
          \<lparr>patch.title = None, patch.content = None,
            patch.status = Some Published, patch.updated_at = Some 7\<rparr>
          (Some (doc_id plan_a))]
   \<and> patch.content
        \<lparr>patch.title = Some (title loaded),
          patch.content = Some (content_text JSON_stringify (content loaded)),
          patch.status = Some (status loaded),
          patch.updated_at = Some 7\<rparr> = Some (JSON_stringify (content loaded))
   \<and> update_row
        \<lparr>patch.title = None, patch.content = None,
          patch.status = Some Published, patch.updated_at = Some 7\<rparr> plan_a
      = plan_a\<lparr>doc.status := Published, doc.updated_at := 7\<rparr>
   \<and> patch.content
        \<lparr>patch.title = Some (title (loaded\<lparr>content := JStr ''text''\<rparr>)),
          patch.content =
            Some (content_text JSON_stringify (content (loaded\<lparr>content := JStr ''text''\<rparr>))),
          patch.status = Some (status (loaded\<lparr>content := JStr ''text''\<rparr>)),
          patch.updated_at = Some 7\<rparr> = Some ''text''"
proof -
  have c: "\<not> is_string (content loaded)"
    by (simp add: loaded_fields empty_document_def)
  from writes_refresh_updated_at [where st = loaded and d = plan_a and user = "Some ''alice''"
      and u = "''alice''" and stringify = JSON_stringify and now = 7 and err = None
      and newStatus = Published and row = plan_a, OF loaded_fields(1) refl] c
  have 1: "requests (effects (saveDocument JSON_stringify (Some ''alice'') 7 None loaded)) =
     requests (effects loaded) @
       [Update_eq
          \<lparr>patch.title = Some (title loaded),
            patch.content = Some (content_text JSON_stringify (content loaded)),
            patch.status = Some (status loaded),
            patch.updated_at = Some 7\<rparr>
          (Some (doc_id plan_a))]
   \<and> requests (effects (handleStatusChange 7 Published None loaded)) =
     requests (effects loaded) @
       [Update_eq
          \<lparr>patch.title = None, patch.content = None,
            patch.status = Some Published, patch.updated_at = Some 7\<rparr>
          (Some (doc_id plan_a))]
   \<and> patch.content
        \<lparr>patch.title = Some (title loaded),
          patch.content = Some (content_text JSON_stringify (content loaded)),
          patch.status = Some (status loaded),
          patch.updated_at = Some 7\<rparr> = Some (JSON_stringify (content loaded))
   \<and> update_row
        \<lparr>patch.title = None, patch.content = None,
          patch.status = Some Published, patch.updated_at = Some 7\<rparr> plan_a
      = plan_a\<lparr>doc.status := Published, doc.updated_at := 7\<rparr>"
    by blast
  have d: "document (loaded\<lparr>content := JStr ''text''\<rparr>) = Some plan_a"
    and s: "content (loaded\<lparr>content := JStr ''text''\<rparr>) = JStr ''text''"
    by (simp_all add: loaded_fields)
  from writes_refresh_updated_at [where st = "loaded\<lparr>content := JStr ''text''\<rparr>"
      and d = plan_a and user = "Some ''alice''" and u = "''alice''"
      and stringify = JSON_stringify and now = 7, OF d refl] s
  have 2: "patch.content
        \<lparr>patch.title = Some (title (loaded\<lparr>content := JStr ''text''\<rparr>)),
          patch.content =
            Some (content_text JSON_stringify (content (loaded\<lparr>content := JStr ''text''\<rparr>))),
          patch.status = Some (status (loaded\<lparr>content := JStr ''text''\<rparr>)),
          patch.updated_at = Some 7\<rparr> = Some ''text''"
    by blast
  from 1 2 show ?thesis
    by (intro conjI) blast+
qed

text \<open>
  C10. The manual save ends with the toast "Document saved ... successfully" whatever
  \<open>saveDocument\<close> did: after a failed update it follows the toast "Failed to save
  document", and it is shown as well when no update was made at all (no document on
  the page, or no user).
\<close>

theorem manual_save_reports_success:
  fixes st :: editor
  shows
    "last (effects (handleManualSave stringify user now err st)) =
       Toast ''Document saved'' ''Your document has been saved successfully'' Default_variant
     \<and> (document st = Some d \<and> user = Some u \<and> err = Some e \<longrightarrow>
          effects (handleManualSave stringify user now err st) =
            effects st @
              [Request
                 (Update_eq
                    \<lparr>patch.title = Some (title st),
                      patch.content = Some (content_text stringify (content st)),
                      patch.status = Some (status st),
                      patch.updated_at = Some now\<rparr>
                    (Some (doc_id d))),
               ConsoleError ''Error saving document:'' e,
               Toast ''Error'' ''Failed to save document'' Destructive,
               Toast ''Document saved'' ''Your document has been saved successfully''
                 Default_variant])
     \<and> (document st = None \<or> user = None \<longrightarrow>
          effects (handleManualSave stringify user now err st) =
            effects st @
              [Toast ''Document saved'' ''Your document has been saved successfully''
                 Default_variant])"
  by (auto simp: handleManualSave_def saveDocument_def request_def toast_def console_error_def
      split: option.splits)

theorem manual_save_reports_success_witness:
  "effects
     (handleManualSave JSON_stringify (Some ''alice'') 7 (Some (PostgrestError ''offline'')) loaded) =
     effects loaded @
       [Request
          (Update_eq
             \<lparr>patch.title = Some (title loaded),
               patch.content = Some (content_text JSON_stringify (content loaded)),
               patch.status = Some (status loaded),
               patch.updated_at = Some 7\<rparr>
             (Some (doc_id plan_a))),
        ConsoleError ''Error saving document:'' (PostgrestError ''offline''),
        Toast ''Error'' ''Failed to save document'' Destructive,
        Toast ''Document saved'' ''Your document has been saved successfully'' Default_variant]
   \<and> effects (handleManualSave JSON_stringify (Some ''alice'') 7 None editor_mount) =
     effects editor_mount @
       [Toast ''Document saved'' ''Your document has been saved successfully'' Default_variant]"
proof -
  have m: "document editor_mount = None"
    by (simp add: editor_mount_def)
  from manual_save_reports_success [where st = loaded and d = plan_a and user = "Some ''alice''"
      and u = "''alice''" and stringify = JSON_stringify and now = 7
      and err = "Some (PostgrestError ''offline'')" and e = "PostgrestError ''offline''"]
    loaded_fields(1)
  have 1: "effects
     (handleManualSave JSON_stringify (Some ''alice'') 7 (Some (PostgrestError ''offline'')) loaded) =
     effects loaded @
       [Request
          (Update_eq
             \<lparr>patch.title = Some (title loaded),
               patch.content = Some (content_text JSON_stringify (content loaded)),
               patch.status = Some (status loaded),
               patch.updated_at = Some 7\<rparr>
             (Some (doc_id plan_a))),
        ConsoleError ''Error saving document:'' (PostgrestError ''offline''),
        Toast ''Error'' ''Failed to save document'' Destructive,
        Toast ''Document saved'' ''Your document has been saved successfully'' Default_variant]"
    by blast
  from manual_save_reports_success [where st = editor_mount and user = "Some ''alice''"
      and stringify = JSON_stringify and now = 7 and err = None] m
  have 2: "effects (handleManualSave JSON_stringify (Some ''alice'') 7 None editor_mount) =
     effects editor_mount @
       [Toast ''Document saved'' ''Your document has been saved successfully'' Default_variant]"
    by blast
  from 1 2 show ?thesis
    by (intro conjI)
qed

section \<open>The dashboard's handlers\<close>

text \<open>
  A deletion alone, nothing happening between the click and the answer: when the store
  answers without error the list is the list without the documents of that id, and when
  it answers with an error the list is what it was.
\<close>

lemma delete_alone:
  "documents (deleteDocument i None st) = filter (\<lambda>d. doc_id d \<noteq> i) (documents st)
   \<and> i \<notin> doc_id ` set (documents (deleteDocument i None st))
   \<and> set (documents (deleteDocument i None st)) = {d \<in> set (documents st). doc_id d \<noteq> i}
   \<and> documents (deleteDocument i (Some e) st) = documents st"
  by (auto simp: deleteDocument_def deleteDocument_call_def deleteDocument_answer_def request_def
      toast_def console_error_def)

text \<open>
  C6. Two deletions in flight. The dashboard lists \<open>notes_doc\<close>, \<open>plan_b\<close> and \<open>plan_a\<close>; the
  user deletes \<open>plan_a\<close> and, before the store has answered, \<open>notes_doc\<close>, and the store
  answers both calls without error. Each handler filters the list of the render it was
  created in, the full list. After the first answer the list is without \<open>plan_a\<close>. After
  the second it is the full list without \<open>notes_doc\<close>: \<open>plan_a\<close>, deleted in the store, is
  listed again, and both deletions were reported as successful.
\<close>

theorem deleted_document_returns:
  "documents listed = [notes_doc, plan_b, plan_a]
   \<and> documents first_clicked = [notes_doc, plan_b, plan_a]
   \<and> requests (effects both_clicked) = [Select_ordered, Delete_eq ''a1'', Delete_eq ''a2'']
   \<and> documents (deleteDocument_answer ''a1'' (documents listed) None both_clicked) =
       [notes_doc, plan_b]
   \<and> documents
       (deleteDocument_answer ''a2'' (documents first_clicked) None
          (deleteDocument_answer ''a1'' (documents listed) None both_clicked)) =
       [plan_b, plan_a]
   \<and> effects
       (deleteDocument_answer ''a2'' (documents first_clicked) None
          (deleteDocument_answer ''a1'' (documents listed) None both_clicked)) =
       [Request Select_ordered, Request (Delete_eq ''a1''), Request (Delete_eq ''a2''),
        Toast ''Success'' ''Document deleted successfully'' Default_variant,
        Toast ''Success'' ''Document deleted successfully'' Default_variant]"
  by code_simp

text \<open>
  C8. \<open>createNewDocument\<close> makes exactly one call on the store, an insert of one record:
  the title "Untitled Document", the content the serialization of a document whose one
  paragraph holds an empty text, the owner the signed-in user's id, the status draft.
  When the store answers without error and with the inserted row, the handler navigates
  to \<open>/document/\<close> followed by the row's id, and does nothing else. The dashboard's list is
  left as it was.
\<close>

theorem create_inserts_default_document:
  fixes st :: dashboard and stringify :: "json \<Rightarrow> string" and user :: "string option"
  defines "inserted \<equiv>
     \<lparr>new_doc.title = ''Untitled Document'',
       new_doc.content =
         stringify
           (JObj [(''type'', JStr ''doc''),
                  (''content'',
                   JArr [JObj [(''type'', JStr ''paragraph''),
                               (''content'',
                                JArr [JObj [(''type'', JStr ''text''),
                                            (''text'', JStr [])]])]])]),
       new_doc.user_id = user,
       new_doc.status = Draft\<rparr>"
  shows
    "requests (effects (createNewDocument stringify user r st)) =
       requests (effects st) @ [Insert_select [inserted]]
     \<and> (error r = None \<and> data r = Some (d # ds) \<longrightarrow>
          effects (createNewDocument stringify user r st) =
            effects st @ [Request (Insert_select [inserted]), Push (''/document/'' @ doc_id d)])
     \<and> documents (createNewDocument stringify user r st) = documents st"
  unfolding inserted_def
  by (auto simp: createNewDocument_def empty_document_def request_def toast_def push_def
      console_error_def Let_def requests_append split: option.splits list.splits)

theorem create_inserts_default_document_witness:
  "effects
      (createNewDocument JSON_stringify (Some ''alice'')
         \<lparr>data = Some [plan_a], error = None\<rparr> dashboard_mount) =
      effects dashboard_mount @
        [Request
           (Insert_select
              [\<lparr>new_doc.title = ''Untitled Document'',
                new_doc.content =
                  JSON_stringify
                    (JObj [(''type'', JStr ''doc''),
                           (''content'',
                            JArr [JObj [(''type'', JStr ''paragraph''),
                                        (''content'',
                                         JArr [JObj [(''type'', JStr ''text''),
                                                     (''text'', JStr [])]])]])]),
                new_doc.user_id = Some ''alice'',
                new_doc.status = Draft\<rparr>]),
         Push (''/document/'' @ doc_id plan_a)]"
proof -
  have r: "error \<lparr>data = Some [plan_a], error = None\<rparr> = None
           \<and> data \<lparr>data = Some [plan_a], error = None\<rparr> = Some (plan_a # [])"
    by simp
  from create_inserts_default_document [where st = dashboard_mount
      and user = "Some ''alice''" and stringify = JSON_stringify
      and r = "\<lparr>data = Some [plan_a], error = None\<rparr>" and d = plan_a and ds = "[]"] r
  show ?thesis
    by blast
qed

lemma starts_with_iff: "starts_with s q \<longleftrightarrow> (\<exists>post. s = q @ post)"
  by (induction s q rule: starts_with.induct) auto

lemma includes_str_iff: "includes_str s q \<longleftrightarrow> (\<exists>pre post. s = pre @ q @ post)"
proof (induction s)
  case Nil
  then show ?case by auto
next
  case (Cons c cs)
  show ?case
  proof
    assume "includes_str (c # cs) q"
    then consider "starts_with (c # cs) q" | "includes_str cs q"
      by auto
    then show "\<exists>pre post. c # cs = pre @ q @ post"
    proof cases
      case 1
      then obtain post where "c # cs = q @ post"
        by (auto simp: starts_with_iff)
      then have "c # cs = [] @ q @ post" by simp
      then show ?thesis by blast
    next
      case 2
      with Cons.IH obtain pre post where "cs = pre @ q @ post" by blast
      then have "c # cs = (c # pre) @ q @ post" by simp
      then show ?thesis by blast
    qed
  next
    assume "\<exists>pre post. c # cs = pre @ q @ post"
    then obtain pre post where eq: "c # cs = pre @ q @ post" by blast
    show "includes_str (c # cs) q"
    proof (cases pre)
      case Nil
      with eq have "starts_with (c # cs) q"
        by (auto simp: starts_with_iff)
      then show ?thesis by simp
    next
      case (Cons p ps)
      with eq have "cs = ps @ q @ post" by simp
      with Cons.IH have "includes_str cs q" by blast
      then show ?thesis by simp
    qed
  qed
qed

text \<open>
  C9. The filtered list holds exactly the documents of the list whose title, in lower
  case, contains the query in lower case, and whose status is the one the filter
  selects (the filter "all" selects both), in the order of the list. On the documents
  Plan A (draft), Plan B (published) and Notes (draft), the query "Plan" and the filter
  "draft" give Plan A alone.
\<close>

theorem dashboard_filter:
  "set (filteredDocuments st) =
     {d \<in> set (documents st).
        (\<exists>pre post. toLowerCase (doc.title d) = pre @ toLowerCase (searchQuery st) @ post)
        \<and> (statusFilter st = All_statuses \<or> statusFilter st = Only (doc.status d))}
   \<and> filteredDocuments st = filter (\<lambda>d. d \<in> set (filteredDocuments st)) (documents st)
   \<and> filteredDocuments
        \<lparr>isLoading = False, effects = [], documents = [plan_a, plan_b, notes_doc],
         searchQuery = ''Plan'', statusFilter = Only Draft\<rparr> = [plan_a]"
proof -
  have 1: "set (filteredDocuments st) =
     {d \<in> set (documents st).
        (\<exists>pre post. toLowerCase (doc.title d) = pre @ toLowerCase (searchQuery st) @ post)
        \<and> (statusFilter st = All_statuses \<or> statusFilter st = Only (doc.status d))}"
    by (auto simp: filteredDocuments_def includes_str_iff)
  have 2: "filteredDocuments st = filter (\<lambda>d. d \<in> set (filteredDocuments st)) (documents st)"
    by (auto simp: filteredDocuments_def intro: filter_cong)
  have 3: "filteredDocuments
        \<lparr>isLoading = False, effects = [], documents = [plan_a, plan_b, notes_doc],
         searchQuery = ''Plan'', statusFilter = Only Draft\<rparr> = [plan_a]"
    by (simp add: filteredDocuments_def plan_a_def plan_b_def notes_doc_def toLowerCase_def
        lower_char_def)
  from 1 2 3 show ?thesis by blast
qed

section \<open>Debounced saving\<close>

lemma Object_is_refl: "Object_is x x"
  by (simp add: Object_is_def)

lemma Object_is_fresh: "i \<noteq> j \<Longrightarrow> \<not> Object_is (i, JObj ms) (j, v)"
  by (cases v) (simp_all add: Object_is_def)

lemma advance_nothing_due:
  assumes "timer (titleDebounce st) = None"
    and "case timer (contentDebounce st) of None \<Rightarrow> True | Some due \<Rightarrow> t < due"
  shows "advance stringify user answer t st = st"
  using assms
  by (auto simp: advance_def fire_content_def fire_title_def split: option.splits)

lemma hooks_new_content:
  assumes "titleDebounce st = \<lparr>seen = title st, settled = title st, timer = None\<rparr>"
    and "deps st = (settled (contentDebounce st), title st)"
    and "seen (contentDebounce st) = (contentId st, content st)"
  shows "hooks stringify user answer t (apply_edit (SetContent ms) st) =
           st\<lparr>content := JObj ms, contentId := Suc (contentId st),
              contentDebounce :=
                (contentDebounce st)\<lparr>seen := (Suc (contentId st), JObj ms), timer := Some (t + 1000)\<rparr>\<rparr>"
  using assms
  by (simp add: hooks_def useDebounce_def same_deps_def Object_is_refl Object_is_fresh Let_def)

lemma run_restarts:
  assumes "titleDebounce st = \<lparr>seen = title st, settled = title st, timer = None\<rparr>"
    and "deps st = (settled (contentDebounce st), title st)"
    and "seen (contentDebounce st) = (contentId st, content st)"
    and "restarts (timer (contentDebounce st)) es"
    and "es \<noteq> []"
  shows "run stringify user answer (content_edits es) st =
           st\<lparr>content := JObj (snd (last es)), contentId := contentId st + length es,
              contentDebounce :=
                (contentDebounce st)
                  \<lparr>seen := (contentId st + length es, JObj (snd (last es))),
                   timer := Some (fst (last es) + 1000)\<rparr>\<rparr>"
  using assms
proof (induction es arbitrary: st)
  case Nil
  then show ?case by simp
next
  case (Cons e es)
  obtain t ms where e: "e = (t, ms)" by (cases e)
  let ?st1 = "st\<lparr>content := JObj ms, contentId := Suc (contentId st),
              contentDebounce :=
                (contentDebounce st)\<lparr>seen := (Suc (contentId st), JObj ms), timer := Some (t + 1000)\<rparr>\<rparr>"
  from Cons.prems e have due: "case timer (contentDebounce st) of None \<Rightarrow> True | Some due \<Rightarrow> t < due"
    and rest: "restarts (Some (t + 1000)) es"
    by (auto split: option.splits)
  from Cons.prems(1) have "timer (titleDebounce st) = None" by simp
  then have adv: "advance stringify user answer t st = st"
    using due by (rule advance_nothing_due)
  from Cons.prems(1,2,3)
  have hk: "hooks stringify user answer t (apply_edit (SetContent ms) st) = ?st1"
    by (rule hooks_new_content)
  have step: "run stringify user answer (content_edits (e # es)) st =
                run stringify user answer (content_edits es) ?st1"
    by (simp add: content_edits_def e adv hk del: apply_edit.simps)
  show ?case
  proof (cases "es = []")
    case True
    with step show ?thesis by (simp add: content_edits_def e)
  next
    case False
    have "run stringify user answer (content_edits es) ?st1 =
           ?st1\<lparr>content := JObj (snd (last es)), contentId := contentId ?st1 + length es,
              contentDebounce :=
                (contentDebounce ?st1)
                  \<lparr>seen := (contentId ?st1 + length es, JObj (snd (last es))),
                   timer := Some (fst (last es) + 1000)\<rparr>\<rparr>"
      using Cons.prems(1,2) rest False by (intro Cons.IH) simp_all
    with step False show ?thesis by simp
  qed
qed

lemma hooks_guard:
  "same_deps (settled (contentDebounce st), debouncedTitle st) (deps st)
   \<or> \<not> truthy (debouncedContent st) \<or> document st = None \<or> user = None \<Longrightarrow>
     effects (hooks stringify user answer now st) = effects st"
  by (auto simp: hooks_def useDebounce_def debouncedContent_def debouncedTitle_def Let_def
      saveDocument_def split: option.splits)

lemma hooks_saves:
  assumes "\<not> same_deps (settled (contentDebounce st), debouncedTitle st) (deps st)"
    and "truthy (debouncedContent st)" and "document st = Some d" and "user = Some u"
  shows "effects (hooks stringify user answer now st) =
           effects st @
             Request
               (Update_eq
                  \<lparr>patch.title = Some (title st),
                    patch.content = Some (content_text stringify (content st)),
                    patch.status = Some (status st),
                    patch.updated_at = Some now\<rparr>
                  (Some (doc_id d))) #
             (case answer now of
                None \<Rightarrow> []
              | Some e \<Rightarrow>
                  [ConsoleError ''Error saving document:'' e,
                   Toast ''Error'' ''Failed to save document'' Destructive])"
  using assms
  by (auto simp: hooks_def useDebounce_def debouncedContent_def debouncedTitle_def Let_def
      saveDocument_def request_def toast_def console_error_def split: option.splits)

lemma hooks_keeps_hooks:
  "contentDebounce (hooks stringify user answer now st) =
     useDebounce Object_is now (contentId st, content st) 1000 (contentDebounce st)"
  "titleDebounce (hooks stringify user answer now st) =
     useDebounce (=) now (title st) 1000 (titleDebounce st)"
  by (auto simp: hooks_def Let_def saveDocument_def request_def toast_def console_error_def
      split: option.splits)

lemma burst_run:
  assumes q: "quiet st" and es: "es \<noteq> []" "restarts None es"
  shows "run stringify user answer (content_edits es) st =
           st\<lparr>content := JObj (snd (last es)), contentId := contentId st + length es,
              contentDebounce :=
                (contentDebounce st)
                  \<lparr>seen := (contentId st + length es, JObj (snd (last es))),
                   timer := Some (fst (last es) + 1000)\<rparr>\<rparr>"
proof -
  from q have t: "titleDebounce st = \<lparr>seen = title st, settled = title st, timer = None\<rparr>"
    and cd: "contentDebounce st =
      \<lparr>seen = (contentId st, content st), settled = (contentId st, content st), timer = None\<rparr>"
    and dp: "deps st = ((contentId st, content st), title st)"
    by (simp_all add: quiet_def)
  show ?thesis
    using t dp cd es by (intro run_restarts) simp_all
qed

lemma burst_pending:
  assumes q: "quiet st" and es: "es \<noteq> []" "restarts None es"
    and T: "T < fst (last es) + 1000"
  shows "effects (advance stringify user answer T (run stringify user answer (content_edits es) st)) =
           effects st"
proof -
  from q have t: "timer (titleDebounce st) = None"
    by (simp add: quiet_def)
  show ?thesis
    using T t by (simp add: burst_run [OF q es] advance_nothing_due)
qed

lemma burst_saves_once:
  assumes q: "quiet st" and d: "document st = Some d" and u: "user = Some u"
    and es: "es \<noteq> []" "restarts None es"
    and T: "fst (last es) + 1000 \<le> T"
  shows "effects (advance stringify user answer T (run stringify user answer (content_edits es) st)) =
           effects st @
             Request
               (Update_eq
                  \<lparr>patch.title = Some (title st),
                    patch.content = Some (stringify (JObj (snd (last es)))),
                    patch.status = Some (status st),
                    patch.updated_at = Some (fst (last es) + 1000)\<rparr>
                  (Some (doc_id d))) #
             (case answer (fst (last es) + 1000) of
                None \<Rightarrow> []
              | Some e \<Rightarrow>
                  [ConsoleError ''Error saving document:'' e,
                   Toast ''Error'' ''Failed to save document'' Destructive])"
proof -
  let ?c = "JObj (snd (last es))" and ?at = "fst (last es) + 1000"
    and ?i = "contentId st + length es"
  let ?st2 = "st\<lparr>content := ?c, contentId := ?i,
              contentDebounce := (contentDebounce st)\<lparr>seen := (?i, ?c), timer := Some ?at\<rparr>\<rparr>"
  from q have t: "titleDebounce st = \<lparr>seen = title st, settled = title st, timer = None\<rparr>"
    and dp: "deps st = ((contentId st, content st), title st)"
    by (simp_all add: quiet_def)
  have r: "run stringify user answer (content_edits es) st = ?st2"
    using q es by (rule burst_run)
  let ?st3 = "?st2\<lparr>contentDebounce := expire (contentDebounce ?st2)\<rparr>"
  have first: "content_first ?st2"
    by (simp add: content_first_def t)
  have f: "fire_content stringify user answer T ?st2 = hooks stringify user answer ?at ?st3"
    using T by (simp add: fire_content_def)
  have ft: "timer (titleDebounce (hooks stringify user answer ?at ?st3)) = None"
    using t by (simp add: hooks_keeps_hooks useDebounce_def)
  have a: "advance stringify user answer T ?st2 = hooks stringify user answer ?at ?st3"
    using first f ft by (simp add: advance_def fire_title_def)
  from es(1) have "?i \<noteq> contentId st"
    by simp
  then have "\<not> Object_is (?i, ?c) (contentId st, content st)"
    by (rule Object_is_fresh)
  then have ne: "\<not> same_deps (settled (contentDebounce ?st3), debouncedTitle ?st3) (deps ?st3)"
    using dp by (simp add: same_deps_def expire_def)
  have tr: "truthy (debouncedContent ?st3)"
    by (simp add: debouncedContent_def expire_def)
  have d3: "document ?st3 = Some d"
    using d by simp
  from hooks_saves [OF ne tr d3 u, of stringify answer ?at]
  show ?thesis
    by (simp add: r a content_text_def)
qed

lemma retitle_saves:
  assumes q: "quiet st" and d: "document st = Some d" and u: "user = Some u"
    and c: "truthy (content st)" and n: "t' \<noteq> title st"
  shows "effects (advance stringify user answer T (run stringify user answer [(t, SetTitle t')] st)) =
           (if t + 1000 \<le> T
            then effects st @
              Request
                (Update_eq
                   \<lparr>patch.title = Some t',
                     patch.content = Some (content_text stringify (content st)),
                     patch.status = Some (status st),
                     patch.updated_at = Some (t + 1000)\<rparr>
                   (Some (doc_id d))) #
              (case answer (t + 1000) of
                 None \<Rightarrow> []
               | Some e \<Rightarrow>
                   [ConsoleError ''Error saving document:'' e,
                    Toast ''Error'' ''Failed to save document'' Destructive])
            else effects st)"
proof -
  from q have t: "titleDebounce st = \<lparr>seen = title st, settled = title st, timer = None\<rparr>"
    and cd: "contentDebounce st =
      \<lparr>seen = (contentId st, content st), settled = (contentId st, content st), timer = None\<rparr>"
    and dp: "deps st = ((contentId st, content st), title st)"
    by (simp_all add: quiet_def)
  let ?st1 = "st\<lparr>title := t', titleDebounce := \<lparr>seen = t', settled = title st, timer = Some (t + 1000)\<rparr>\<rparr>"
  have adv: "advance stringify user answer t st = st"
    using t cd by (intro advance_nothing_due) simp_all
  have hk: "hooks stringify user answer t (st\<lparr>title := t'\<rparr>) = ?st1"
    using t cd dp n
    by (simp add: hooks_def useDebounce_def same_deps_def Object_is_refl Let_def)
  have r: "run stringify user answer [(t, SetTitle t')] st = ?st1"
    by (simp add: adv hk)
  have first: "content_first ?st1"
    by (simp add: content_first_def cd)
  have fc: "fire_content stringify user answer T ?st1 = ?st1"
    by (simp add: fire_content_def cd)
  show ?thesis
  proof (cases "t + 1000 \<le> T")
    case False
    then have "fire_title stringify user answer T ?st1 = ?st1"
      by (simp add: fire_title_def)
    then have "advance stringify user answer T ?st1 = ?st1"
      by (simp add: advance_def first fc)
    with False show ?thesis
      unfolding r by simp
  next
    case True
    let ?st2 = "?st1\<lparr>titleDebounce := expire (titleDebounce ?st1)\<rparr>"
    have a: "advance stringify user answer T ?st1 = hooks stringify user answer (t + 1000) ?st2"
      using True by (simp add: advance_def first fc fire_title_def)
    have ne: "\<not> same_deps (settled (contentDebounce ?st2), debouncedTitle ?st2) (deps ?st2)"
      using dp n by (simp add: same_deps_def expire_def debouncedTitle_def)
    have tr: "truthy (debouncedContent ?st2)"
      using c cd by (simp add: debouncedContent_def)
    have d2: "document ?st2 = Some d"
      using d by simp
    from hooks_saves [OF ne tr d2 u, of stringify answer "t + 1000"] True
    show ?thesis
      unfolding r a by simp
  qed
qed


text \<open>
  The page at rest is where the page that has opened \<open>plan_a\<close> is one second later, the
  two updates it has made by then apart.
\<close>

lemma opened_settles:
  "quiet (advance JSON_stringify (Some ''alice'') (\<lambda>t. None) 1000 (opened plan_a))
   \<and> advance JSON_stringify (Some ''alice'') (\<lambda>t. None) 1000 (opened plan_a) =
       at_rest
         \<lparr>effects :=
            effects (advance JSON_stringify (Some ''alice'') (\<lambda>t. None) 1000 (opened plan_a))\<rparr>"
  by code_simp

text \<open>
  The editor compares nothing: a burst that ends on a content equal to the one the
  page started from is saved like any other.
\<close>

lemma equal_content_is_saved:
  "typed [] = content at_rest
   \<and> effects
       (advance JSON_stringify (Some ''alice'') (\<lambda>t. None) 2000
          (run JSON_stringify (Some ''alice'') (\<lambda>t. None) (content_edits typed_and_erased) at_rest)) =
       [Request
          (Update_eq
             \<lparr>patch.title = Some ''Plan A'',
               patch.content = Some (JSON_stringify empty_document),
               patch.status = Some Draft,
               patch.updated_at = Some 1400\<rparr>
             (Some ''a1''))]"
  by code_simp

text \<open>
  A document whose content is \<open>null\<close>, opened by its owner: the settled title changes
  from the empty string to the fetched title, and after an edit of the title to the
  edited one, and the page makes no call but the fetch. And the spec's burst on a page
  where no user is signed in: the settled content changes to the last one typed, and
  the page makes no call. No save is triggered.
\<close>

theorem settled_title_without_save:
  "debouncedTitle (opened notes_doc) = []
   \<and> debouncedTitle
        (advance JSON_stringify (Some ''alice'') (\<lambda>t. None) 3000
           (run JSON_stringify (Some ''alice'') (\<lambda>t. None) [(2000, SetTitle ''Notes 2'')]
              (opened notes_doc))) = ''Notes 2''
   \<and> effects
        (advance JSON_stringify (Some ''alice'') (\<lambda>t. None) 3000
           (run JSON_stringify (Some ''alice'') (\<lambda>t. None) [(2000, SetTitle ''Notes 2'')]
              (opened notes_doc))) = [Request (Select_single ''a2'')]
   \<and> debouncedContent at_rest = empty_document
   \<and> debouncedContent
        (advance JSON_stringify None (\<lambda>t. None) 2000
           (run JSON_stringify None (\<lambda>t. None) (content_edits keystrokes) at_rest)) =
       typed ''Hell''
   \<and> effects
        (advance JSON_stringify None (\<lambda>t. None) 2000
           (run JSON_stringify None (\<lambda>t. None) (content_edits keystrokes) at_rest)) = []"
  by code_simp

text \<open>
  C4, amended. Each of the two hooks restarts its timer on every new value: whatever was
  pending, the timer is then due 1000 ms later. A content the editor emits is always
  new, equal to the last or not; a title is new when it is another string. On a page at
  rest with a document and a signed-in user, a burst of content changes, each within
  the window of the one before, makes exactly one call on the store, and none until
  1000 ms after the last change: the update made then, with that last content and the
  title and status of that instant. On such a page whose content is truthy, a change of
  the title makes one update, 1000 ms later, and none until then. The saving effect
  makes no call in a render in which neither settled value has changed, nor when the
  settled content is falsy, the page has no document or no user is signed in;
  otherwise it makes one update, with the title and the content the page has in that
  render.
\<close>

theorem debounced_saves:
  fixes st :: editor
  shows
    "(seen (contentDebounce st) = (contentId st, content st) \<longrightarrow>
        timer (contentDebounce (hooks stringify user answer now (apply_edit (SetContent ms) st))) =
          Some (now + 1000))
     \<and> (seen (titleDebounce st) = title st \<and> t' \<noteq> title st \<longrightarrow>
        timer (titleDebounce (hooks stringify user answer now (apply_edit (SetTitle t') st))) =
          Some (now + 1000))
     \<and> (quiet st \<and> document st = Some d \<and> user = Some u \<and> es \<noteq> [] \<and> restarts None es \<longrightarrow>
         effects
           (advance stringify user answer T (run stringify user answer (content_edits es) st)) =
           (if fst (last es) + 1000 \<le> T
            then effects st @
              Request
                (Update_eq
                   \<lparr>patch.title = Some (title st),
                     patch.content = Some (stringify (JObj (snd (last es)))),
                     patch.status = Some (status st),
                     patch.updated_at = Some (fst (last es) + 1000)\<rparr>
                   (Some (doc_id d))) #
              (case answer (fst (last es) + 1000) of
                 None \<Rightarrow> []
               | Some e \<Rightarrow>
                   [ConsoleError ''Error saving document:'' e,
                    Toast ''Error'' ''Failed to save document'' Destructive])
            else effects st))
     \<and> (quiet st \<and> document st = Some d \<and> user = Some u \<and> truthy (content st)
          \<and> t' \<noteq> title st \<longrightarrow>
         effects
           (advance stringify user answer T (run stringify user answer [(t, SetTitle t')] st)) =
           (if t + 1000 \<le> T
            then effects st @
              Request
                (Update_eq
                   \<lparr>patch.title = Some t',
                     patch.content = Some (content_text stringify (content st)),
                     patch.status = Some (status st),
                     patch.updated_at = Some (t + 1000)\<rparr>
                   (Some (doc_id d))) #
              (case answer (t + 1000) of
                 None \<Rightarrow> []
               | Some e \<Rightarrow>
                   [ConsoleError ''Error saving document:'' e,
                    Toast ''Error'' ''Failed to save document'' Destructive])
            else effects st))
     \<and> (same_deps (settled (contentDebounce st), debouncedTitle st) (deps st)
          \<or> \<not> truthy (debouncedContent st) \<or> document st = None \<or> user = None \<longrightarrow>
         effects (hooks stringify user answer now st) = effects st)
     \<and> (\<not> same_deps (settled (contentDebounce st), debouncedTitle st) (deps st)
          \<and> truthy (debouncedContent st) \<and> document st = Some d \<and> user = Some u \<longrightarrow>
         effects (hooks stringify user answer now st) =
           effects st @
             Request
               (Update_eq
                  \<lparr>patch.title = Some (title st),
                    patch.content = Some (content_text stringify (content st)),
                    patch.status = Some (status st),
                    patch.updated_at = Some now\<rparr>
                  (Some (doc_id d))) #
             (case answer now of
                None \<Rightarrow> []
              | Some e \<Rightarrow>
                  [ConsoleError ''Error saving document:'' e,
                   Toast ''Error'' ''Failed to save document'' Destructive]))"
proof (intro conjI impI)
  assume "seen (contentDebounce st) = (contentId st, content st)"
  then show "timer (contentDebounce (hooks stringify user answer now (apply_edit (SetContent ms) st))) =
          Some (now + 1000)"
    by (simp add: hooks_keeps_hooks useDebounce_def Object_is_fresh)
next
  assume "seen (titleDebounce st) = title st \<and> t' \<noteq> title st"
  then show "timer (titleDebounce (hooks stringify user answer now (apply_edit (SetTitle t') st))) =
          Some (now + 1000)"
    by (simp add: hooks_keeps_hooks useDebounce_def)
next
  assume a: "quiet st \<and> document st = Some d \<and> user = Some u \<and> es \<noteq> [] \<and> restarts None es"
  show "effects
           (advance stringify user answer T (run stringify user answer (content_edits es) st)) =
           (if fst (last es) + 1000 \<le> T
            then effects st @
              Request
                (Update_eq
                   \<lparr>patch.title = Some (title st),
                     patch.content = Some (stringify (JObj (snd (last es)))),
                     patch.status = Some (status st),
                     patch.updated_at = Some (fst (last es) + 1000)\<rparr>
                   (Some (doc_id d))) #
              (case answer (fst (last es) + 1000) of
                 None \<Rightarrow> []
               | Some e \<Rightarrow>
                   [ConsoleError ''Error saving document:'' e,
                    Toast ''Error'' ''Failed to save document'' Destructive])
            else effects st)"
  proof (cases "fst (last es) + 1000 \<le> T")
    case True
    with a burst_saves_once [of st d user u es T stringify answer] show ?thesis
      by simp
  next
    case False
    with a burst_pending [of st es T stringify user answer] show ?thesis
      by simp
  qed
next
  assume "quiet st \<and> document st = Some d \<and> user = Some u \<and> truthy (content st)
          \<and> t' \<noteq> title st"
  then show "effects
           (advance stringify user answer T (run stringify user answer [(t, SetTitle t')] st)) =
           (if t + 1000 \<le> T
            then effects st @
              Request
                (Update_eq
                   \<lparr>patch.title = Some t',
                     patch.content = Some (content_text stringify (content st)),
                     patch.status = Some (status st),
                     patch.updated_at = Some (t + 1000)\<rparr>
                   (Some (doc_id d))) #
              (case answer (t + 1000) of
                 None \<Rightarrow> []
               | Some e \<Rightarrow>
                   [ConsoleError ''Error saving document:'' e,
                    Toast ''Error'' ''Failed to save document'' Destructive])
            else effects st)"
    by (intro retitle_saves) simp_all
next
  assume "same_deps (settled (contentDebounce st), debouncedTitle st) (deps st)
          \<or> \<not> truthy (debouncedContent st) \<or> document st = None \<or> user = None"
  then show "effects (hooks stringify user answer now st) = effects st"
    by (rule hooks_guard)
next
  assume "\<not> same_deps (settled (contentDebounce st), debouncedTitle st) (deps st)
          \<and> truthy (debouncedContent st) \<and> document st = Some d \<and> user = Some u"
  then show "effects (hooks stringify user answer now st) =
           effects st @
             Request
               (Update_eq
                  \<lparr>patch.title = Some (title st),
                    patch.content = Some (content_text stringify (content st)),
                    patch.status = Some (status st),
                    patch.updated_at = Some now\<rparr>
                  (Some (doc_id d))) #
             (case answer now of
                None \<Rightarrow> []
              | Some e \<Rightarrow>
                  [ConsoleError ''Error saving document:'' e,
                   Toast ''Error'' ''Failed to save document'' Destructive])"
    by (intro hooks_saves) simp_all
qed


lemma at_rest_facts:
  "quiet at_rest" "document at_rest = Some plan_a"
  "title at_rest = ''Plan A''" "status at_rest = Draft" "effects at_rest = []"
  "content at_rest = empty_document"
  by (simp_all add: quiet_def at_rest_def)

lemma keystrokes_facts:
  "keystrokes \<noteq> []" "restarts None keystrokes"
  by (simp_all add: keystrokes_def)

lemma last_keystrokes: "last keystrokes = (950, one_paragraph ''Hell'')"
  by (simp add: keystrokes_def)

lemma mid_burst_facts:
  "seen (contentDebounce mid_burst) = (contentId mid_burst, content mid_burst)"
  by (simp add: mid_burst_def)

lemma just_settled_facts:
  "\<not> same_deps (settled (contentDebounce just_settled), debouncedTitle just_settled)
       (deps just_settled)
   \<and> truthy (debouncedContent just_settled) \<and> document just_settled = Some plan_a
   \<and> Some ''alice'' = Some ''alice''"
  "effects just_settled = []" "title just_settled = ''Plan Z''"
  "content just_settled = typed ''Hell''" "status just_settled = Draft"
  "seen (titleDebounce just_settled) = title just_settled \<and> ''Plan Y'' \<noteq> title just_settled"
  by (simp_all add: just_settled_def at_rest_def debouncedContent_def debouncedTitle_def typed_def
      same_deps_def Object_is_def empty_document_def)

lemma opened_notes_facts:
  "same_deps (settled (contentDebounce (opened notes_doc)), debouncedTitle (opened notes_doc))
     (deps (opened notes_doc))
   \<or> \<not> truthy (debouncedContent (opened notes_doc)) \<or> document (opened notes_doc) = None
   \<or> Some ''alice'' = None"
  by code_simp

theorem debounced_saves_witness:
  "timer
     (contentDebounce
        (hooks JSON_stringify (Some ''alice'') (\<lambda>t. None) 100
           (apply_edit (SetContent (one_paragraph ''He'')) mid_burst))) = Some 1100
   \<and> timer
       (titleDebounce
          (hooks JSON_stringify (Some ''alice'') (\<lambda>t. None) 2000
             (apply_edit (SetTitle ''Plan Y'') just_settled))) = Some 3000
   \<and> effects
       (advance JSON_stringify (Some ''alice'') (\<lambda>t. None) 1949
          (run JSON_stringify (Some ''alice'') (\<lambda>t. None) (content_edits keystrokes) at_rest)) = []
   \<and> effects
       (advance JSON_stringify (Some ''alice'') (\<lambda>t. None) 2000
          (run JSON_stringify (Some ''alice'') (\<lambda>t. None) (content_edits keystrokes) at_rest)) =
       [Request
          (Update_eq
             \<lparr>patch.title = Some ''Plan A'',
               patch.content = Some (JSON_stringify (typed ''Hell'')),
               patch.status = Some Draft,
               patch.updated_at = Some 1950\<rparr>
             (Some ''a1''))]
   \<and> effects
       (advance JSON_stringify (Some ''alice'') (\<lambda>t. None) 3000
          (run JSON_stringify (Some ''alice'') (\<lambda>t. None) [(1900, SetTitle ''Plan Z'')] at_rest)) =
       [Request
          (Update_eq
             \<lparr>patch.title = Some ''Plan Z'',
               patch.content = Some (JSON_stringify empty_document),
               patch.status = Some Draft,
               patch.updated_at = Some 2900\<rparr>
             (Some ''a1''))]
   \<and> effects (hooks JSON_stringify (Some ''alice'') (\<lambda>t. None) 1000 (opened notes_doc)) =
       effects (opened notes_doc)
   \<and> effects (hooks JSON_stringify (Some ''alice'') (\<lambda>t. None) 1950 just_settled) =
       [Request
          (Update_eq
             \<lparr>patch.title = Some ''Plan Z'',
               patch.content = Some (JSON_stringify (typed ''Hell'')),
               patch.status = Some Draft,
               patch.updated_at = Some 1950\<rparr>
             (Some ''a1''))]"
proof -
  have "timer
     (contentDebounce
        (hooks JSON_stringify (Some ''alice'') (\<lambda>t. None) 100
           (apply_edit (SetContent (one_paragraph ''He'')) mid_burst))) = Some (100 + 1000)"
    by (rule debounced_saves [where st = mid_burst and now = 100 and ms = "one_paragraph ''He''"
      and user = "Some ''alice''" and stringify = JSON_stringify and answer = "\<lambda>t. None",
      THEN conjunct1, rule_format, OF mid_burst_facts])
  then have 1: "timer
     (contentDebounce
        (hooks JSON_stringify (Some ''alice'') (\<lambda>t. None) 100
           (apply_edit (SetContent (one_paragraph ''He'')) mid_burst))) = Some 1100"
    by simp
  have "timer
       (titleDebounce
          (hooks JSON_stringify (Some ''alice'') (\<lambda>t. None) 2000
             (apply_edit (SetTitle ''Plan Y'') just_settled))) = Some (2000 + 1000)"
    by (rule debounced_saves [where st = just_settled and now = 2000 and t' = "''Plan Y''"
      and user = "Some ''alice''" and stringify = JSON_stringify and answer = "\<lambda>t. None",
      THEN conjunct2, THEN conjunct1, rule_format, OF just_settled_facts(6)])
  then have 2: "timer
       (titleDebounce
          (hooks JSON_stringify (Some ''alice'') (\<lambda>t. None) 2000
             (apply_edit (SetTitle ''Plan Y'') just_settled))) = Some 3000"
    by simp
  have pre: "quiet at_rest \<and> document at_rest = Some plan_a \<and> Some ''alice'' = Some ''alice''
      \<and> keystrokes \<noteq> [] \<and> restarts None keystrokes"
    by (intro conjI at_rest_facts(1,2) keystrokes_facts refl)
  note burst = debounced_saves [where st = at_rest and d = plan_a and user = "Some ''alice''"
      and u = "''alice''" and es = keystrokes and stringify = JSON_stringify
      and answer = "\<lambda>t. None", THEN conjunct2, THEN conjunct2, THEN conjunct1, rule_format, OF pre]
  have 3: "effects
       (advance JSON_stringify (Some ''alice'') (\<lambda>t. None) 1949
          (run JSON_stringify (Some ''alice'') (\<lambda>t. None) (content_edits keystrokes) at_rest)) = []"
    unfolding burst [where T = 1949]
    by (simp add: at_rest_facts last_keystrokes)
  have 4: "effects
       (advance JSON_stringify (Some ''alice'') (\<lambda>t. None) 2000
          (run JSON_stringify (Some ''alice'') (\<lambda>t. None) (content_edits keystrokes) at_rest)) =
       [Request
          (Update_eq
             \<lparr>patch.title = Some ''Plan A'',
               patch.content = Some (JSON_stringify (typed ''Hell'')),
               patch.status = Some Draft,
               patch.updated_at = Some 1950\<rparr>
             (Some ''a1''))]"
    unfolding burst [where T = 2000]
    by (simp add: at_rest_facts last_keystrokes plan_a_def typed_def)
  have pre': "quiet at_rest \<and> document at_rest = Some plan_a \<and> Some ''alice'' = Some ''alice''
      \<and> truthy (content at_rest) \<and> ''Plan Z'' \<noteq> title at_rest"
    by (simp add: at_rest_facts empty_document_def)
  have 5: "effects
       (advance JSON_stringify (Some ''alice'') (\<lambda>t. None) 3000
          (run JSON_stringify (Some ''alice'') (\<lambda>t. None) [(1900, SetTitle ''Plan Z'')] at_rest)) =
       [Request
          (Update_eq
             \<lparr>patch.title = Some ''Plan Z'',
               patch.content = Some (JSON_stringify empty_document),
               patch.status = Some Draft,
               patch.updated_at = Some 2900\<rparr>
             (Some ''a1''))]"
    unfolding debounced_saves [where st = at_rest and d = plan_a and user = "Some ''alice''"
      and u = "''alice''" and t' = "''Plan Z''" and t = 1900 and T = 3000
      and stringify = JSON_stringify and answer = "\<lambda>t. None",
      THEN conjunct2, THEN conjunct2, THEN conjunct2, THEN conjunct1, rule_format, OF pre']
    by (simp add: at_rest_facts plan_a_def content_text_def empty_document_def)
  have 6: "effects (hooks JSON_stringify (Some ''alice'') (\<lambda>t. None) 1000 (opened notes_doc)) =
       effects (opened notes_doc)"
    by (rule debounced_saves [where st = "opened notes_doc" and user = "Some ''alice''"
      and stringify = JSON_stringify and answer = "\<lambda>t. None" and now = 1000,
      THEN conjunct2, THEN conjunct2, THEN conjunct2, THEN conjunct2, THEN conjunct1,
      rule_format, OF opened_notes_facts])
  have 7: "effects (hooks JSON_stringify (Some ''alice'') (\<lambda>t. None) 1950 just_settled) =
       [Request
          (Update_eq
             \<lparr>patch.title = Some ''Plan Z'',
               patch.content = Some (JSON_stringify (typed ''Hell'')),
               patch.status = Some Draft,
               patch.updated_at = Some 1950\<rparr>
             (Some ''a1''))]"
    unfolding debounced_saves [where st = just_settled and d = plan_a and user = "Some ''alice''"
      and u = "''alice''" and stringify = JSON_stringify and answer = "\<lambda>t. None" and now = 1950,
      THEN conjunct2, THEN conjunct2, THEN conjunct2, THEN conjunct2, THEN conjunct2,
      rule_format, OF just_settled_facts(1)]
    by (simp add: just_settled_facts(2-5) plan_a_def content_text_def typed_def)
  from 1 2 3 4 5 6 7 show ?thesis
    by (intro conjI)
qed

end
